theory Spec2Isabelle
  imports Main
begin

section \<open>Strings\<close>

text \<open>
  The operations compare texts with \<^verbatim>\<open>toLowerCase\<close> and \<^verbatim>\<open>includes\<close>. A text is a
  sequence of code units; the 8-bit characters of HOL are the code units U+0000 to
  U+00FF, and texts with a code unit above U+00FF are outside the model. On these code
  units \<^verbatim>\<open>toLowerCase\<close> maps A to Z and the letters U+00C0 to U+00DE, the
  multiplication sign U+00D7 excepted, to the code unit 32 above, and leaves every other
  code unit alone.
\<close>

definition toLowerCase_char :: "char \<Rightarrow> char" where
  "toLowerCase_char c =
     (let n = (of_char c :: nat)
      in if (65 \<le> n \<and> n \<le> 90) \<or> (192 \<le> n \<and> n \<le> 222 \<and> n \<noteq> 215)
         then char_of (n + 32) else c)"

definition toLowerCase :: "string \<Rightarrow> string" where
  "toLowerCase s = map toLowerCase_char s"

fun startsWith :: "string \<Rightarrow> string \<Rightarrow> bool" where
  "startsWith s [] = True"
| "startsWith [] (c # t) = False"
| "startsWith (d # s) (c # t) = (d = c \<and> startsWith s t)"

text \<open>\<^verbatim>\<open>s.includes(t)\<close>: \<open>t\<close> occurs in \<open>s\<close> as a contiguous run of characters.\<close>

fun str_includes :: "string \<Rightarrow> string \<Rightarrow> bool" where
  "str_includes [] t = (t = [])"
| "str_includes (d # s) t = (startsWith (d # s) t \<or> str_includes s t)"

section \<open>Data model\<close>

text \<open>
  \<^verbatim>\<open>Database['public']['Tables']['memos']['Row']\<close> of \<^verbatim>\<open>src/types/database.ts\<close>. The
  field \<^verbatim>\<open>tags\<close> has type \<^verbatim>\<open>string[] | null\<close>. The two timestamps are the instants
  the TIMESTAMPTZ columns hold; the storage orders rows by them.
\<close>

type_synonym timestamp = nat

record MemoRow =
  row_id :: string
  row_title :: string
  row_content :: string
  row_category :: string
  row_tags :: "string list option"
  created_at :: timestamp
  updated_at :: timestamp

text \<open>
  Modelled from the spec: the types \<^verbatim>\<open>Memo\<close> and \<^verbatim>\<open>MemoFormData\<close> are imported from
  \<^verbatim>\<open>@/types/memo\<close>, which is not among the sources. \<open>Memo\<close> has the seven fields of the
  object literals the operations build (section 3 of the spec); \<open>MemoFormData\<close> is
  \<^verbatim>\<open>{title, content, category?, tags?}\<close> (section 4.1), an omitted field being \<open>None\<close>.
\<close>

record Memo =
  memo_id :: string
  memo_title :: string
  memo_content :: string
  memo_category :: string
  memo_tags :: "string list"
  createdAt :: timestamp
  updatedAt :: timestamp

record MemoFormData =
  fd_title :: string
  fd_content :: string
  fd_category :: "string option"
  fd_tags :: "string list option"

text \<open>
  \<^verbatim>\<open>a ?? b\<close> yields \<open>b\<close> when \<open>a\<close> is null or undefined. \<^verbatim>\<open>a || b\<close> yields \<open>b\<close> when
  \<open>a\<close> is falsy; an array and a row object are truthy, the empty array included, so on
  these types it is \<open>b\<close> exactly when \<open>a\<close> is null or undefined as well.
\<close>

definition nullish :: "'a option \<Rightarrow> 'a \<Rightarrow> 'a" where
  "nullish a b = (case a of None \<Rightarrow> b | Some x \<Rightarrow> x)"

definition logical_or :: "'a option \<Rightarrow> 'a \<Rightarrow> 'a" where
  "logical_or a b = (case a of None \<Rightarrow> b | Some x \<Rightarrow> x)"

section \<open>The query builder\<close>

text \<open>
  The operations talk to the storage through the fluent query builder of the storage
  client. A query names the table, what to do with it, the columns to return, the
  filters, the ordering and whether exactly one row is asked for.
\<close>

datatype text_column = Id | Title | Content | Category

datatype time_column = Created_at | Updated_at

datatype cond = Eq text_column string | Ilike text_column string

text \<open>
  A filter is one condition on a column, set by \<^verbatim>\<open>.eq(column, value)\<close>, or the string
  handed to \<^verbatim>\<open>.or(...)\<close>, which the storage reads as a list of alternatives.
\<close>

datatype filter = Where cond | Or string

record payload =
  p_title :: string
  p_content :: string
  p_category :: "string option"
  p_tags :: "string list"

datatype verb = Select | Insert payload | Update payload | Delete

record builder =
  q_table :: string
  q_verb :: verb
  q_columns :: "string option"
  q_filters :: "filter list"
  q_order :: "(time_column \<times> bool) option"
  q_single :: bool

section \<open>Effects\<close>

text \<open>
  What an awaited query gives back: the promise rejects, or it resolves to the pair
  \<^verbatim>\<open>{data, error}\<close>, each possibly null.
\<close>

datatype pg_error = PgError string

datatype exn = Thrown pg_error | Rejection string | TypeError

datatype 'd response = Rejected exn | Resolved "'d option" "pg_error option"

text \<open>
  The world an operation runs in: the storage (of any type \<open>'s\<close>), the builder objects
  allocated so far (a builder is an object; its methods change it in place and return
  it), the queries sent, the paths passed to \<^verbatim>\<open>revalidatePath\<close> and the messages passed
  to \<^verbatim>\<open>console.error\<close>.
\<close>

type_synonym ref = nat

record 's world =
  store :: 's
  heap :: "ref \<Rightarrow> builder option"
  fresh :: ref
  queries :: "builder list"
  revalidated :: "string list"
  logged :: "string list"

text \<open>
  A computation either returns a value (\<open>Inr\<close>) or throws (\<open>Inl\<close>), and changes the
  world.
\<close>

type_synonym ('s, 'a) io = "'s world \<Rightarrow> (exn + 'a) \<times> 's world"

definition ret :: "'a \<Rightarrow> ('s, 'a) io" where
  "ret x w = (Inr x, w)"

definition throw :: "exn \<Rightarrow> ('s, 'a) io" where
  "throw e w = (Inl e, w)"

definition io_bind :: "('s, 'a) io \<Rightarrow> ('a \<Rightarrow> ('s, 'b) io) \<Rightarrow> ('s, 'b) io" where
  "io_bind m f w = (case m w of (Inl e, w') \<Rightarrow> (Inl e, w') | (Inr x, w') \<Rightarrow> f x w')"

definition io_seq :: "('s, 'a) io \<Rightarrow> ('s, 'b) io \<Rightarrow> ('s, 'b) io" where
  "io_seq m n = io_bind m (\<lambda>_. n)"

definition try_catch :: "('s, 'a) io \<Rightarrow> (exn \<Rightarrow> ('s, 'a) io) \<Rightarrow> ('s, 'a) io" where
  "try_catch m h w = (case m w of (Inl e, w') \<Rightarrow> h e w' | (Inr x, w') \<Rightarrow> (Inr x, w'))"

definition console_error :: "string \<Rightarrow> ('s, unit) io" where
  "console_error msg w = (Inr (), w\<lparr>logged := logged w @ [msg]\<rparr>)"

definition revalidatePath :: "string \<Rightarrow> ('s, unit) io" where
  "revalidatePath path w = (Inr (), w\<lparr>revalidated := revalidated w @ [path]\<rparr>)"

subsection \<open>Builder methods\<close>

text \<open>
  \<^verbatim>\<open>supabase.from(table)\<close> names the table. Its methods \<^verbatim>\<open>select\<close>, \<^verbatim>\<open>insert\<close>,
  \<^verbatim>\<open>update\<close> and \<^verbatim>\<open>delete\<close> each make a new builder object for that kind of query.
\<close>

datatype query_builder = QueryBuilder string

definition supabase_from :: "string \<Rightarrow> query_builder" where
  "supabase_from t = QueryBuilder t"

definition new_builder :: "verb \<Rightarrow> string option \<Rightarrow> query_builder \<Rightarrow> ('s, ref) io" where
  "new_builder v cols qb w =
     (case qb of
        QueryBuilder t \<Rightarrow>
          (Inr (fresh w),
           w\<lparr>heap := (heap w)(fresh w \<mapsto>
                 \<lparr>q_table = t, q_verb = v, q_columns = cols, q_filters = [],
                  q_order = None, q_single = False\<rparr>),
             fresh := Suc (fresh w)\<rparr>))"

definition qb_select :: "string \<Rightarrow> query_builder \<Rightarrow> ('s, ref) io" where
  "qb_select cols = new_builder Select (Some cols)"

definition qb_insert :: "payload \<Rightarrow> query_builder \<Rightarrow> ('s, ref) io" where
  "qb_insert p = new_builder (Insert p) None"

definition qb_update :: "payload \<Rightarrow> query_builder \<Rightarrow> ('s, ref) io" where
  "qb_update p = new_builder (Update p) None"

definition qb_delete :: "query_builder \<Rightarrow> ('s, ref) io" where
  "qb_delete = new_builder Delete None"

text \<open>
  Every method of a builder changes the builder it is called on and returns that same
  builder (\<^verbatim>\<open>return this\<close>). A call on something that is no builder is a \<open>TypeError\<close>.
  \<^verbatim>\<open>.select(columns)\<close> on a builder asks for the written rows back; with no argument
  the columns are \<^verbatim>\<open>*\<close>.
\<close>

definition mutate :: "(builder \<Rightarrow> builder) \<Rightarrow> ref \<Rightarrow> ('s, ref) io" where
  "mutate f r w =
     (case heap w r of
        None \<Rightarrow> (Inl TypeError, w)
      | Some b \<Rightarrow> (Inr r, w\<lparr>heap := (heap w)(r \<mapsto> f b)\<rparr>))"

definition b_select :: "string \<Rightarrow> ref \<Rightarrow> ('s, ref) io" where
  "b_select cols = mutate (\<lambda>b. b\<lparr>q_columns := Some cols\<rparr>)"

definition b_select_default :: "ref \<Rightarrow> ('s, ref) io" where
  "b_select_default = b_select ''*''"

definition b_eq :: "text_column \<Rightarrow> string \<Rightarrow> ref \<Rightarrow> ('s, ref) io" where
  "b_eq col v = mutate (\<lambda>b. b\<lparr>q_filters := q_filters b @ [Where (Eq col v)]\<rparr>)"

definition b_or :: "string \<Rightarrow> ref \<Rightarrow> ('s, ref) io" where
  "b_or filters = mutate (\<lambda>b. b\<lparr>q_filters := q_filters b @ [Or filters]\<rparr>)"

definition b_order :: "time_column \<Rightarrow> bool \<Rightarrow> ref \<Rightarrow> ('s, ref) io" where
  "b_order col ascending = mutate (\<lambda>b. b\<lparr>q_order := Some (col, ascending)\<rparr>)"

definition b_single :: "ref \<Rightarrow> ('s, ref) io" where
  "b_single = mutate (\<lambda>b. b\<lparr>q_single := True\<rparr>)"

text \<open>
  \<^verbatim>\<open>await query\<close> sends the builder's query to the storage. \<open>exec\<close> is the storage: it
  answers a query in a storage state with a response and the next state.
\<close>

type_synonym ('s, 'd) exec = "builder \<Rightarrow> 's \<Rightarrow> 'd response \<times> 's"

definition await :: "('s, 'd) exec \<Rightarrow> ref \<Rightarrow> ('s, 'd option \<times> pg_error option) io" where
  "await exec r w =
     (case heap w r of
        None \<Rightarrow> (Inl TypeError, w)
      | Some b \<Rightarrow>
          (case exec b (store w) of
             (resp, s') \<Rightarrow>
               (let w' = w\<lparr>store := s', queries := queries w @ [b]\<rparr>
                in case resp of
                     Rejected e \<Rightarrow> (Inl e, w')
                   | Resolved d err \<Rightarrow> (Inr (d, err), w'))))"

definition init :: "'s \<Rightarrow> 's world" where
  "init s = \<lparr>store = s, heap = (\<lambda>_. None), fresh = 0, queries = [], revalidated = [],
             logged = []\<rparr>"

definition run :: "('s, 'a) io \<Rightarrow> 's \<Rightarrow> (exn + 'a) \<times> 's world" where
  "run m s = m (init s)"

section \<open>The operations of \<^verbatim>\<open>src/app/actions/memos.ts\<close>\<close>

definition all_columns :: string where
  "all_columns = ''id, title, content, category, tags, created_at, updated_at''"

definition toMemo :: "MemoRow \<Rightarrow> Memo" where
  "toMemo memo =
     \<lparr>memo_id = row_id memo, memo_title = row_title memo, memo_content = row_content memo,
      memo_category = row_category memo, memo_tags = nullish (row_tags memo) [],
      createdAt = created_at memo, updatedAt = updated_at memo\<rparr>"

definition getMemos :: "('s, MemoRow list) exec \<Rightarrow> ('s, Memo list) io" where
  "getMemos exec =
     try_catch
       (io_bind (qb_select all_columns (supabase_from ''memos'')) (\<lambda>q.
        io_bind (b_order Created_at False q) (\<lambda>q.
        io_bind (await exec q) (\<lambda>(data, error).
          case error of
            Some e \<Rightarrow> io_seq (console_error ''Error fetching memos:'') (throw (Thrown e))
          | None \<Rightarrow>
              (case data of
                 None \<Rightarrow> ret []
               | Some rows \<Rightarrow> ret (map toMemo rows))))))
       (\<lambda>error. io_seq (console_error ''Failed to fetch memos:'') (ret []))"

definition getMemoById :: "('s, MemoRow) exec \<Rightarrow> string \<Rightarrow> ('s, Memo option) io" where
  "getMemoById exec ident =
     try_catch
       (io_bind (qb_select all_columns (supabase_from ''memos'')) (\<lambda>q.
        io_bind (b_eq Id ident q) (\<lambda>q.
        io_bind (b_single q) (\<lambda>q.
        io_bind (await exec q) (\<lambda>(data, error).
          case error of
            Some e \<Rightarrow> io_seq (console_error ''Error fetching memo:'') (ret None)
          | None \<Rightarrow>
              (case data of
                 None \<Rightarrow> ret None
               | Some memo \<Rightarrow> ret (Some (toMemo memo))))))))
       (\<lambda>error. io_seq (console_error ''Failed to fetch memo:'') (ret None))"

definition form_payload :: "MemoFormData \<Rightarrow> payload" where
  "form_payload formData =
     \<lparr>p_title = fd_title formData, p_content = fd_content formData,
      p_category = fd_category formData, p_tags = logical_or (fd_tags formData) []\<rparr>"

definition createMemo :: "('s, MemoRow) exec \<Rightarrow> MemoFormData \<Rightarrow> ('s, Memo option) io" where
  "createMemo exec formData =
     try_catch
       (let insertData = form_payload formData in
        io_bind (qb_insert insertData (supabase_from ''memos'')) (\<lambda>q.
        io_bind (b_select all_columns q) (\<lambda>q.
        io_bind (b_single q) (\<lambda>q.
        io_bind (await exec q) (\<lambda>(data, error).
          case error of
            Some e \<Rightarrow> io_seq (console_error ''Error creating memo:'') (throw (Thrown e))
          | None \<Rightarrow>
              (case data of
                 None \<Rightarrow> ret None
               | Some memo \<Rightarrow>
                   (let result = toMemo memo in
                    io_seq (revalidatePath ''/'') (ret (Some result)))))))))
       (\<lambda>error. io_seq (console_error ''Failed to create memo:'') (ret None))"

definition updateMemo ::
  "('s, MemoRow) exec \<Rightarrow> string \<Rightarrow> MemoFormData \<Rightarrow> ('s, Memo option) io" where
  "updateMemo exec ident formData =
     try_catch
       (let updateData = form_payload formData in
        io_bind (qb_update updateData (supabase_from ''memos'')) (\<lambda>q.
        io_bind (b_eq Id ident q) (\<lambda>q.
        io_bind (b_select all_columns q) (\<lambda>q.
        io_bind (b_single q) (\<lambda>q.
        io_bind (await exec q) (\<lambda>(data, error).
          case error of
            Some e \<Rightarrow> io_seq (console_error ''Error updating memo:'') (throw (Thrown e))
          | None \<Rightarrow>
              (case data of
                 None \<Rightarrow> ret None
               | Some memo \<Rightarrow>
                   (let result = toMemo memo in
                    io_seq (revalidatePath ''/'') (ret (Some result))))))))))
       (\<lambda>error. io_seq (console_error ''Failed to update memo:'') (ret None))"

definition deleteMemo :: "('s, MemoRow list) exec \<Rightarrow> string \<Rightarrow> ('s, bool) io" where
  "deleteMemo exec ident =
     try_catch
       (io_bind (qb_delete (supabase_from ''memos'')) (\<lambda>q.
        io_bind (b_eq Id ident q) (\<lambda>q.
        io_bind (await exec q) (\<lambda>(data, error).
          case error of
            Some e \<Rightarrow> io_seq (console_error ''Error deleting memo:'') (throw (Thrown e))
          | None \<Rightarrow> io_seq (revalidatePath ''/'') (ret True)))))
       (\<lambda>error. io_seq (console_error ''Failed to delete memo:'') (ret False))"

text \<open>
  The filter callback of \<^verbatim>\<open>searchMemos\<close>. \<^verbatim>\<open>memo.tags?.some(...)\<close> is undefined, hence
  falsy, when \<^verbatim>\<open>tags\<close> is null.
\<close>

definition matches :: "string \<Rightarrow> MemoRow \<Rightarrow> bool" where
  "matches query memo =
     (let matchesTitle = str_includes (toLowerCase (row_title memo)) (toLowerCase query);
          matchesContent = str_includes (toLowerCase (row_content memo)) (toLowerCase query);
          matchesTags =
            (case row_tags memo of
               None \<Rightarrow> False
             | Some tags \<Rightarrow>
                 list_ex (\<lambda>tag. str_includes (toLowerCase tag) (toLowerCase query)) tags)
      in matchesTitle \<or> matchesContent \<or> matchesTags)"

definition searchMemos :: "('s, MemoRow list) exec \<Rightarrow> string \<Rightarrow> ('s, Memo list) io" where
  "searchMemos exec query =
     try_catch
       (let searchPattern = ''%'' @ query @ ''%'' in
        io_bind (qb_select all_columns (supabase_from ''memos'')) (\<lambda>q.
        io_bind (b_or (''title.ilike.'' @ searchPattern @ '',content.ilike.'' @ searchPattern) q)
          (\<lambda>q.
        io_bind (b_order Created_at False q) (\<lambda>q.
        io_bind (await exec q) (\<lambda>(data, error).
          case error of
            Some e \<Rightarrow> io_seq (console_error ''Error searching memos:'') (throw (Thrown e))
          | None \<Rightarrow>
              (case data of
                 None \<Rightarrow> ret []
               | Some rows \<Rightarrow>
                   (let filteredData = filter (matches query) rows
                    in ret (map toMemo filteredData))))))))
       (\<lambda>error. io_seq (console_error ''Failed to search memos:'') (ret []))"

text \<open>
  \<^verbatim>\<open>getMemosByCategory\<close> keeps the builder in a variable and, for a category other than
  \<^verbatim>\<open>'all'\<close>, assigns the result of \<^verbatim>\<open>.eq\<close> to it before awaiting it.
\<close>

definition getMemosByCategory ::
  "('s, MemoRow list) exec \<Rightarrow> string \<Rightarrow> ('s, Memo list) io" where
  "getMemosByCategory exec category =
     try_catch
       (io_bind (qb_select all_columns (supabase_from ''memos'')) (\<lambda>q.
        io_bind (b_order Created_at False q) (\<lambda>query.
        io_bind (if category \<noteq> ''all'' then b_eq Category category query else ret query)
          (\<lambda>query.
        io_bind (await exec query) (\<lambda>(data, error).
          case error of
            Some e \<Rightarrow>
              io_seq (console_error ''Error fetching memos by category:'') (throw (Thrown e))
          | None \<Rightarrow>
              (case data of
                 None \<Rightarrow> ret []
               | Some rows \<Rightarrow> ret (map toMemo rows)))))))
       (\<lambda>error. io_seq (console_error ''Failed to fetch memos by category:'') (ret []))"

section \<open>The operations of \<^verbatim>\<open>src/unnamed/part_000\<close>\<close>

text \<open>
  The second version of the module selects \<^verbatim>\<open>*\<close>, writes \<^verbatim>\<open>||\<close> where the first writes
  \<^verbatim>\<open>??\<close>, reads \<^verbatim>\<open>data || []\<close> where the first returns early on null data, and has no
  null check in \<^verbatim>\<open>createMemo\<close>: there \<^verbatim>\<open>data.id\<close> on null data is a \<open>TypeError\<close>.
\<close>

definition toMemo_p0 :: "MemoRow \<Rightarrow> Memo" where
  "toMemo_p0 memo =
     \<lparr>memo_id = row_id memo, memo_title = row_title memo, memo_content = row_content memo,
      memo_category = row_category memo, memo_tags = logical_or (row_tags memo) [],
      createdAt = created_at memo, updatedAt = updated_at memo\<rparr>"

definition getMemos_p0 :: "('s, MemoRow list) exec \<Rightarrow> ('s, Memo list) io" where
  "getMemos_p0 exec =
     try_catch
       (io_bind (qb_select ''*'' (supabase_from ''memos'')) (\<lambda>q.
        io_bind (b_order Created_at False q) (\<lambda>q.
        io_bind (await exec q) (\<lambda>(data, error).
          case error of
            Some e \<Rightarrow> io_seq (console_error ''Error fetching memos:'') (throw (Thrown e))
          | None \<Rightarrow> ret (map toMemo_p0 (logical_or data []))))))
       (\<lambda>error. io_seq (console_error ''Failed to fetch memos:'') (ret []))"

definition getMemoById_p0 :: "('s, MemoRow) exec \<Rightarrow> string \<Rightarrow> ('s, Memo option) io" where
  "getMemoById_p0 exec ident =
     try_catch
       (io_bind (qb_select ''*'' (supabase_from ''memos'')) (\<lambda>q.
        io_bind (b_eq Id ident q) (\<lambda>q.
        io_bind (b_single q) (\<lambda>q.
        io_bind (await exec q) (\<lambda>(data, error).
          case error of
            Some e \<Rightarrow> io_seq (console_error ''Error fetching memo:'') (ret None)
          | None \<Rightarrow>
              (case data of
                 None \<Rightarrow> ret None
               | Some row \<Rightarrow> ret (Some (toMemo_p0 row))))))))
       (\<lambda>error. io_seq (console_error ''Failed to fetch memo:'') (ret None))"

definition createMemo_p0 ::
  "('s, MemoRow) exec \<Rightarrow> MemoFormData \<Rightarrow> ('s, Memo option) io" where
  "createMemo_p0 exec formData =
     try_catch
       (io_bind (qb_insert (form_payload formData) (supabase_from ''memos'')) (\<lambda>q.
        io_bind (b_select_default q) (\<lambda>q.
        io_bind (b_single q) (\<lambda>q.
        io_bind (await exec q) (\<lambda>(data, error).
          case error of
            Some e \<Rightarrow> io_seq (console_error ''Error creating memo:'') (throw (Thrown e))
          | None \<Rightarrow>
              (case data of
                 None \<Rightarrow> throw TypeError
               | Some row \<Rightarrow>
                   (let memo = toMemo_p0 row in
                    io_seq (revalidatePath ''/'') (ret (Some memo)))))))))
       (\<lambda>error. io_seq (console_error ''Failed to create memo:'') (ret None))"

definition updateMemo_p0 ::
  "('s, MemoRow) exec \<Rightarrow> string \<Rightarrow> MemoFormData \<Rightarrow> ('s, Memo option) io" where
  "updateMemo_p0 exec ident formData =
     try_catch
       (io_bind (qb_update (form_payload formData) (supabase_from ''memos'')) (\<lambda>q.
        io_bind (b_eq Id ident q) (\<lambda>q.
        io_bind (b_select_default q) (\<lambda>q.
        io_bind (b_single q) (\<lambda>q.
        io_bind (await exec q) (\<lambda>(data, error).
          case error of
            Some e \<Rightarrow> io_seq (console_error ''Error updating memo:'') (throw (Thrown e))
          | None \<Rightarrow>
              (case data of
                 None \<Rightarrow> ret None
               | Some row \<Rightarrow>
                   (let memo = toMemo_p0 row in
                    io_seq (revalidatePath ''/'') (ret (Some memo))))))))))
       (\<lambda>error. io_seq (console_error ''Failed to update memo:'') (ret None))"

definition deleteMemo_p0 :: "('s, MemoRow list) exec \<Rightarrow> string \<Rightarrow> ('s, bool) io" where
  "deleteMemo_p0 exec ident =
     try_catch
       (io_bind (qb_delete (supabase_from ''memos'')) (\<lambda>q.
        io_bind (b_eq Id ident q) (\<lambda>q.
        io_bind (await exec q) (\<lambda>(data, error).
          case error of
            Some e \<Rightarrow> io_seq (console_error ''Error deleting memo:'') (throw (Thrown e))
          | None \<Rightarrow> io_seq (revalidatePath ''/'') (ret True)))))
       (\<lambda>error. io_seq (console_error ''Failed to delete memo:'') (ret False))"

definition searchMemos_p0 :: "('s, MemoRow list) exec \<Rightarrow> string \<Rightarrow> ('s, Memo list) io" where
  "searchMemos_p0 exec query =
     try_catch
       (let searchPattern = ''%'' @ query @ ''%'' in
        io_bind (qb_select ''*'' (supabase_from ''memos'')) (\<lambda>q.
        io_bind (b_or (''title.ilike.'' @ searchPattern @ '',content.ilike.'' @ searchPattern) q)
          (\<lambda>q.
        io_bind (b_order Created_at False q) (\<lambda>q.
        io_bind (await exec q) (\<lambda>(data, error).
          case error of
            Some e \<Rightarrow> io_seq (console_error ''Error searching memos:'') (throw (Thrown e))
          | None \<Rightarrow>
              (let filteredData = filter (matches query) (logical_or data [])
               in ret (map toMemo_p0 filteredData)))))))
       (\<lambda>error. io_seq (console_error ''Failed to search memos:'') (ret []))"

text \<open>
  Here \<^verbatim>\<open>getMemosByCategory\<close> calls \<^verbatim>\<open>query.eq(...)\<close> as a statement, drops what it
  returns, and awaits the variable \<^verbatim>\<open>query\<close>.
\<close>

definition getMemosByCategory_p0 ::
  "('s, MemoRow list) exec \<Rightarrow> string \<Rightarrow> ('s, Memo list) io" where
  "getMemosByCategory_p0 exec category =
     try_catch
       (io_bind (qb_select ''*'' (supabase_from ''memos'')) (\<lambda>q.
        io_bind (b_order Created_at False q) (\<lambda>query.
        io_seq (if category \<noteq> ''all''
                then io_seq (b_eq Category category query) (ret ())
                else ret ())
          (io_bind (await exec query) (\<lambda>(data, error).
          case error of
            Some e \<Rightarrow>
              io_seq (console_error ''Error fetching memos by category:'') (throw (Thrown e))
          | None \<Rightarrow> ret (map toMemo_p0 (logical_or data [])))))))
       (\<lambda>error. io_seq (console_error ''Failed to fetch memos by category:'') (ret []))"

section \<open>The storage\<close>

text \<open>
  Modelled from the spec: the storage backend is a hosted database service outside the
  repository; the repository holds the migration that creates its one table. The model
  is the query capability section 6 of the spec lists (equality filter,
  case-insensitive substring filter written as a LIKE-style pattern and combined with OR
  across two text columns, descending sort by timestamp, single-row fetch, insert and
  update returning the row, delete by id, bulk select) over the table of the migration:
  \<^verbatim>\<open>id\<close> is the primary key with a generated default, \<^verbatim>\<open>category\<close> defaults to
  \<^verbatim>\<open>'personal'\<close>, both timestamps default to the current time, and a trigger sets
  \<^verbatim>\<open>updated_at\<close> on every update. A table is the list of its rows.
\<close>

type_synonym table = "MemoRow list"

definition text_of :: "text_column \<Rightarrow> MemoRow \<Rightarrow> string" where
  "text_of col r =
     (case col of Id \<Rightarrow> row_id r | Title \<Rightarrow> row_title r | Content \<Rightarrow> row_content r
      | Category \<Rightarrow> row_category r)"

definition time_of :: "time_column \<Rightarrow> MemoRow \<Rightarrow> timestamp" where
  "time_of col r = (case col of Created_at \<Rightarrow> created_at r | Updated_at \<Rightarrow> updated_at r)"

text \<open>
  The substring filter is a LIKE-style pattern, matched with letter case ignored. In a
  pattern \<^verbatim>\<open>%\<close> stands for any run of characters, the empty one included, \<^verbatim>\<open>_\<close> for any
  one character, and a backslash makes the character after it stand for itself; every
  other character stands for itself. A pattern that ends in a lone backslash matches
  nothing. The request syntax of the storage writes \<^verbatim>\<open>*\<close> for \<^verbatim>\<open>%\<close> as well.
\<close>

fun like_match :: "string \<Rightarrow> string \<Rightarrow> bool" where
  "like_match [] s = (s = [])"
| "like_match (p # ps) [] = (p = CHR ''%'' \<and> like_match ps [])"
| "like_match (p # ps) (c # cs) =
     (if p = CHR ''%'' then like_match ps (c # cs) \<or> like_match (p # ps) cs
      else if p = CHR ''_'' then like_match ps cs
      else if p = CHR 0x5C then (case ps of [] \<Rightarrow> False | e # ps' \<Rightarrow> e = c \<and> like_match ps' cs)
      else p = c \<and> like_match ps cs)"

definition star_to_percent :: "string \<Rightarrow> string" where
  "star_to_percent pattern = map (\<lambda>c. if c = CHR ''*'' then CHR ''%'' else c) pattern"

definition ilike :: "string \<Rightarrow> string \<Rightarrow> bool" where
  "ilike pattern s = like_match (toLowerCase (star_to_percent pattern)) (toLowerCase s)"

text \<open>
  The string handed to \<^verbatim>\<open>.or(...)\<close> is a list of conditions separated by commas, each
  written \<^verbatim>\<open>column.operator.value\<close>: the column name runs to the first dot, the operator
  to the second, the value is the rest. Parentheses group conditions in that syntax; a
  string that holds one here, or a piece that is no condition on a text column, is
  malformed, and the storage answers the whole query with an error.
\<close>

fun split_on :: "char \<Rightarrow> string \<Rightarrow> string list" where
  "split_on c [] = [[]]"
| "split_on c (x # xs) =
     (if x = c then [] # split_on c xs
      else (case split_on c xs of [] \<Rightarrow> [[x]] | p # ps \<Rightarrow> (x # p) # ps))"

fun break_at :: "char \<Rightarrow> string \<Rightarrow> (string \<times> string) option" where
  "break_at c [] = None"
| "break_at c (x # xs) =
     (if x = c then Some ([], xs)
      else (case break_at c xs of None \<Rightarrow> None | Some (a, b) \<Rightarrow> Some (x # a, b)))"

definition column_named :: "string \<Rightarrow> text_column option" where
  "column_named name =
     (if name = ''id'' then Some Id
      else if name = ''title'' then Some Title
      else if name = ''content'' then Some Content
      else if name = ''category'' then Some Category
      else None)"

definition parse_cond :: "string \<Rightarrow> cond option" where
  "parse_cond piece =
     (case break_at CHR ''.'' piece of
        None \<Rightarrow> None
      | Some (name, rest) \<Rightarrow>
          (case column_named name of
             None \<Rightarrow> None
           | Some col \<Rightarrow>
               (case break_at CHR ''.'' rest of
                  None \<Rightarrow> None
                | Some (operator, v) \<Rightarrow>
                    if operator = ''ilike'' then Some (Ilike col v)
                    else if operator = ''eq'' then Some (Eq col v)
                    else None)))"

definition parse_or :: "string \<Rightarrow> cond list option" where
  "parse_or s =
     (if CHR ''('' \<in> set s \<or> CHR '')'' \<in> set s then None
      else those (map parse_cond (split_on CHR '','' s)))"

fun filter_conds :: "filter \<Rightarrow> cond list option" where
  "filter_conds (Where c) = Some [c]"
| "filter_conds (Or filters) = parse_or filters"

definition well_formed :: "builder \<Rightarrow> bool" where
  "well_formed b = list_all (\<lambda>f. filter_conds f \<noteq> None) (q_filters b)"

fun cond_holds :: "cond \<Rightarrow> MemoRow \<Rightarrow> bool" where
  "cond_holds (Eq col v) r = (text_of col r = v)"
| "cond_holds (Ilike col pattern) r = ilike pattern (text_of col r)"

definition filter_holds :: "filter \<Rightarrow> MemoRow \<Rightarrow> bool" where
  "filter_holds f r =
     (case filter_conds f of None \<Rightarrow> False | Some cs \<Rightarrow> list_ex (\<lambda>c. cond_holds c r) cs)"

definition selected :: "builder \<Rightarrow> MemoRow \<Rightarrow> bool" where
  "selected b r = list_all (\<lambda>f. filter_holds f r) (q_filters b)"

definition ordered :: "(time_column \<times> bool) option \<Rightarrow> MemoRow list \<Rightarrow> MemoRow list" where
  "ordered ord rs =
     (case ord of
        None \<Rightarrow> rs
      | Some (col, ascending) \<Rightarrow>
          if ascending then sort_key (time_of col) rs else rev (sort_key (time_of col) rs))"

definition new_row :: "string \<Rightarrow> timestamp \<Rightarrow> payload \<Rightarrow> MemoRow" where
  "new_row uuid now p =
     \<lparr>row_id = uuid, row_title = p_title p, row_content = p_content p,
      row_category = (case p_category p of None \<Rightarrow> ''personal'' | Some c \<Rightarrow> c),
      row_tags = Some (p_tags p), created_at = now, updated_at = now\<rparr>"

definition updated_row :: "timestamp \<Rightarrow> payload \<Rightarrow> MemoRow \<Rightarrow> MemoRow" where
  "updated_row now p r =
     r\<lparr>row_title := p_title p, row_content := p_content p,
       row_category := (case p_category p of None \<Rightarrow> row_category r | Some c \<Rightarrow> c),
       row_tags := Some (p_tags p), updated_at := now\<rparr>"

text \<open>
  One statement against the table: the rows it yields and the table it leaves. \<open>uuid\<close>
  and \<open>now\<close> are what the id generator and the clock give for this statement. An insert
  whose id is already in the table violates the primary key. A query with a malformed
  filter is an error and changes nothing.
\<close>

definition pg_statement ::
  "string \<Rightarrow> timestamp \<Rightarrow> builder \<Rightarrow> table \<Rightarrow> (pg_error + MemoRow list) \<times> table" where
  "pg_statement uuid now b t =
     (if \<not> well_formed b then (Inl (PgError ''PGRST100''), t)
      else
        (case q_verb b of
           Select \<Rightarrow> (Inr (ordered (q_order b) (filter (selected b) t)), t)
         | Insert p \<Rightarrow>
             if uuid \<in> set (map row_id t) then (Inl (PgError ''23505''), t)
             else (Inr [new_row uuid now p], t @ [new_row uuid now p])
         | Update p \<Rightarrow>
             (Inr (map (updated_row now p) (filter (selected b) t)),
              map (\<lambda>r. if selected b r then updated_row now p r else r) t)
         | Delete \<Rightarrow> (Inr (filter (selected b) t), filter (\<lambda>r. \<not> selected b r) t)))"

text \<open>
  A query that asks for a single row fails, and changes nothing, unless the statement
  yields exactly one row.
\<close>

definition pg_exec ::
  "string \<Rightarrow> timestamp \<Rightarrow> builder \<Rightarrow> table \<Rightarrow> (pg_error + MemoRow list) \<times> table" where
  "pg_exec uuid now b t =
     (case pg_statement uuid now b t of
        (Inl e, t') \<Rightarrow> (Inl e, t)
      | (Inr rs, t') \<Rightarrow>
          if q_single b \<and> length rs \<noteq> 1 then (Inl (PgError ''PGRST116''), t)
          else (Inr rs, t'))"

text \<open>
  The response to a query for rows: the rows when columns were selected, null data
  otherwise. The response to a query for a single row: that row.
\<close>

definition pg_rows :: "string \<Rightarrow> timestamp \<Rightarrow> (table, MemoRow list) exec" where
  "pg_rows uuid now b t =
     (case pg_exec uuid now b t of
        (Inl e, t') \<Rightarrow> (Resolved None (Some e), t')
      | (Inr rs, t') \<Rightarrow>
          (Resolved (case q_columns b of None \<Rightarrow> None | Some cols \<Rightarrow> Some rs) None, t'))"

definition pg_single :: "string \<Rightarrow> timestamp \<Rightarrow> (table, MemoRow) exec" where
  "pg_single uuid now b t =
     (case pg_exec uuid now b t of
        (Inl e, t') \<Rightarrow> (Resolved None (Some e), t')
      | (Inr rs, t') \<Rightarrow>
          (case (q_columns b, rs) of
             (Some cols, [r]) \<Rightarrow> (Resolved (Some r) None, t')
           | _ \<Rightarrow> (Resolved None (Some (PgError ''PGRST116'')), t')))"

section \<open>What the operations send and what they make of the answer\<close>

text \<open>
  The query each operation sends, with the column list as a parameter: the first version
  of the module names the seven columns, the second writes \<^verbatim>\<open>*\<close>.
\<close>

definition memos_query ::
  "verb \<Rightarrow> string option \<Rightarrow> filter list \<Rightarrow> (time_column \<times> bool) option \<Rightarrow> bool \<Rightarrow> builder" where
  "memos_query v cols fs ord sg =
     \<lparr>q_table = ''memos'', q_verb = v, q_columns = cols, q_filters = fs, q_order = ord,
      q_single = sg\<rparr>"

definition getMemos_query :: "string \<Rightarrow> builder" where
  "getMemos_query cols = memos_query Select (Some cols) [] (Some (Created_at, False)) False"

definition getMemoById_query :: "string \<Rightarrow> string \<Rightarrow> builder" where
  "getMemoById_query cols ident = memos_query Select (Some cols) [Where (Eq Id ident)] None True"

definition createMemo_query :: "string \<Rightarrow> MemoFormData \<Rightarrow> builder" where
  "createMemo_query cols formData =
     memos_query (Insert (form_payload formData)) (Some cols) [] None True"

definition updateMemo_query :: "string \<Rightarrow> string \<Rightarrow> MemoFormData \<Rightarrow> builder" where
  "updateMemo_query cols ident formData =
     memos_query (Update (form_payload formData)) (Some cols) [Where (Eq Id ident)] None True"

definition deleteMemo_query :: "string \<Rightarrow> builder" where
  "deleteMemo_query ident = memos_query Delete None [Where (Eq Id ident)] None False"

definition searchMemos_query :: "string \<Rightarrow> string \<Rightarrow> builder" where
  "searchMemos_query cols q =
     memos_query Select (Some cols)
       [Or (''title.ilike.'' @ (''%'' @ q @ ''%'') @ '',content.ilike.'' @ (''%'' @ q @ ''%''))]
       (Some (Created_at, False)) False"

definition getMemosByCategory_query :: "string \<Rightarrow> string \<Rightarrow> builder" where
  "getMemosByCategory_query cols category =
     memos_query Select (Some cols)
       (if category \<noteq> ''all'' then [Where (Eq Category category)] else [])
       (Some (Created_at, False)) False"

text \<open>
  What a response delivers: its rows, its row, or whether it reports no error. A rejected
  promise and a response with an error deliver nothing.
\<close>

definition rows_of :: "'d list response \<Rightarrow> 'd list" where
  "rows_of resp =
     (case resp of
        Rejected e \<Rightarrow> []
      | Resolved d err \<Rightarrow>
          (case err of Some e \<Rightarrow> [] | None \<Rightarrow> (case d of None \<Rightarrow> [] | Some rows \<Rightarrow> rows)))"

definition row_of :: "'d response \<Rightarrow> 'd option" where
  "row_of resp =
     (case resp of
        Rejected e \<Rightarrow> None
      | Resolved d err \<Rightarrow> (case err of Some e \<Rightarrow> None | None \<Rightarrow> d))"

definition succeeded :: "'d response \<Rightarrow> bool" where
  "succeeded resp =
     (case resp of
        Rejected e \<Rightarrow> False
      | Resolved d err \<Rightarrow> (case err of Some e \<Rightarrow> False | None \<Rightarrow> True))"

text \<open>\<open>s\<close> contains \<open>q\<close> as a substring, letter case ignored.\<close>

definition contains_ci :: "string \<Rightarrow> string \<Rightarrow> bool" where
  "contains_ci s q = str_includes (toLowerCase s) (toLowerCase q)"

definition title_or_content :: "string \<Rightarrow> MemoRow \<Rightarrow> bool" where
  "title_or_content q r = (contains_ci (row_title r) q \<or> contains_ci (row_content r) q)"

text \<open>
  The characters of a query that the pattern language reads as something other than
  themselves.
\<close>

definition wildcards :: "char list" where
  "wildcards = [CHR ''%'', CHR ''_'', CHR 0x5C, CHR ''*'']"

section \<open>Example rows\<close>

text \<open>The two memos of the examples in section 8 of the spec.\<close>

definition urgent_memo :: MemoRow where
  "urgent_memo =
     \<lparr>row_id = ''1'', row_title = ''x'', row_content = ''y'', row_category = ''todo'',
      row_tags = Some [''urgent''], created_at = 1, updated_at = 1\<rparr>"

definition milk_memo :: MemoRow where
  "milk_memo =
     \<lparr>row_id = ''2'', row_title = ''Buy milk'', row_content = ''at the store'',
      row_category = ''todo'', row_tags = Some [], created_at = 2, updated_at = 2\<rparr>"

text \<open>
  Memos that match a query in a tag only: the queries are an underscore, a percent sign,
  an asterisk, a backslash, and a query with a comma in it.
\<close>

definition underscore_memo :: MemoRow where
  "underscore_memo =
     \<lparr>row_id = ''4'', row_title = ''x'', row_content = ''y'', row_category = ''todo'',
      row_tags = Some [''a_b''], created_at = 4, updated_at = 4\<rparr>"

definition percent_memo :: MemoRow where
  "percent_memo =
     \<lparr>row_id = ''5'', row_title = ''x'', row_content = ''y'', row_category = ''todo'',
      row_tags = Some [''100%''], created_at = 5, updated_at = 5\<rparr>"

definition asterisk_memo :: MemoRow where
  "asterisk_memo =
     \<lparr>row_id = ''6'', row_title = ''x'', row_content = ''y'', row_category = ''todo'',
      row_tags = Some [''a*b''], created_at = 6, updated_at = 6\<rparr>"

definition backslash_memo :: MemoRow where
  "backslash_memo =
     \<lparr>row_id = ''7'', row_title = ''100%'', row_content = ''y'', row_category = ''todo'',
      row_tags = Some [[CHR ''a'', CHR 0x5C, CHR ''b'']], created_at = 7, updated_at = 7\<rparr>"

definition comma_memo :: MemoRow where
  "comma_memo =
     \<lparr>row_id = ''8'', row_title = ''x'', row_content = ''y'', row_category = ''todo'',
      row_tags = Some [''b,content.ilike.y''], created_at = 8, updated_at = 8\<rparr>"

text \<open>A row whose tags are null.\<close>

definition untagged_memo :: MemoRow where
  "untagged_memo =
     \<lparr>row_id = ''3'', row_title = ''Call Ann'', row_content = ''about the trip'',
      row_category = ''personal'', row_tags = None, created_at = 3, updated_at = 4\<rparr>"

text \<open>A form with neither category nor tags.\<close>

definition milk_form :: MemoFormData where
  "milk_form = \<lparr>fd_title = ''Buy milk'', fd_content = ''at the store'',
     fd_category = None, fd_tags = None\<rparr>"

text \<open>
  Two storages that fail: one whose requests are rejected, one that answers every query
  with an error.
\<close>

definition offline :: "(unit, 'd) exec" where
  "offline b s = (Rejected (Rejection ''fetch failed''), s)"

definition refusing :: "(unit, 'd) exec" where
  "refusing b s = (Resolved None (Some (PgError ''42501'')), s)"

text \<open>The storage that answers every query with the response \<open>resp\<close>.\<close>

definition answers :: "'d response \<Rightarrow> ('s, 'd) exec" where
  "answers resp b s = (resp, s)"

section \<open>Tags\<close>

text \<open>The tags of a row as a sequence: the empty sequence when the field is null.\<close>

definition tags_or_empty :: "MemoRow \<Rightarrow> string list" where
  "tags_or_empty r = (case row_tags r of None \<Rightarrow> [] | Some tags \<Rightarrow> tags)"

section \<open>Comparing the two versions\<close>

text \<open>
  In the table of the migration \<^verbatim>\<open>*\<close> stands for the seven columns that the first
  version names. Two queries are the same up to the spelling of the column list when they
  are equal once \<^verbatim>\<open>*\<close> is written out. Two runs agree when they return the same, pass
  the same paths to \<^verbatim>\<open>revalidatePath\<close> and send the same queries up to that spelling.
\<close>

definition expand_columns :: "string \<Rightarrow> string" where
  "expand_columns cols = (if cols = ''*'' then all_columns else cols)"

definition same_query :: "builder \<Rightarrow> builder \<Rightarrow> bool" where
  "same_query a b =
     (a\<lparr>q_columns := map_option expand_columns (q_columns a)\<rparr> =
      b\<lparr>q_columns := map_option expand_columns (q_columns b)\<rparr>)"

definition agree :: "(exn + 'a) \<times> 's world \<Rightarrow> (exn + 'a) \<times> 's world \<Rightarrow> bool" where
  "agree x y =
     (fst x = fst y \<and> revalidated (snd x) = revalidated (snd y) \<and>
      list_all2 same_query (queries (snd x)) (queries (snd y)))"

section \<open>Running the operations\<close>

lemmas io_defs = run_def init_def ret_def throw_def io_bind_def io_seq_def try_catch_def
  console_error_def revalidatePath_def supabase_from_def new_builder_def qb_select_def
  qb_insert_def qb_update_def qb_delete_def mutate_def b_select_def
  b_select_default_def b_eq_def b_or_def b_order_def
  b_single_def await_def Let_def

lemma response_cases:
  obtains (rejected) e where "resp = Rejected e"
  | (failed) d err where "resp = Resolved d (Some err)"
  | (null) "resp = Resolved None None"
  | (data) x where "resp = Resolved (Some x) None"
proof (cases resp)
  case (Rejected e)
  then show ?thesis using rejected by simp
next
  case (Resolved d err)
  then show ?thesis using failed null data by (cases d; cases err) auto
qed

lemma getMemos_run:
  "fst (run (getMemos exec) s) = Inr (map toMemo (rows_of (fst (exec (getMemos_query all_columns) s)))) \<and>
   queries (snd (run (getMemos exec) s)) = [getMemos_query all_columns] \<and>
   store (snd (run (getMemos exec) s)) = snd (exec (getMemos_query all_columns) s) \<and>
   revalidated (snd (run (getMemos exec) s)) = []"
proof -
  obtain resp s' where "exec (getMemos_query all_columns) s = (resp, s')"
    by (cases "exec (getMemos_query all_columns) s")
  then show ?thesis
    by (cases resp rule: response_cases)
      (simp_all add: getMemos_def io_defs getMemos_query_def memos_query_def rows_of_def row_of_def
         succeeded_def logical_or_def form_payload_def)
qed

lemma getMemoById_run:
  "fst (run (getMemoById exec ident) s) = Inr (map_option toMemo (row_of (fst (exec (getMemoById_query all_columns ident) s)))) \<and>
   queries (snd (run (getMemoById exec ident) s)) = [getMemoById_query all_columns ident] \<and>
   store (snd (run (getMemoById exec ident) s)) = snd (exec (getMemoById_query all_columns ident) s) \<and>
   revalidated (snd (run (getMemoById exec ident) s)) = []"
proof -
  obtain resp s' where "exec (getMemoById_query all_columns ident) s = (resp, s')"
    by (cases "exec (getMemoById_query all_columns ident) s")
  then show ?thesis
    by (cases resp rule: response_cases)
      (simp_all add: getMemoById_def io_defs getMemoById_query_def memos_query_def rows_of_def row_of_def
         succeeded_def logical_or_def form_payload_def)
qed

lemma createMemo_run:
  "fst (run (createMemo exec formData) s) = Inr (map_option toMemo (row_of (fst (exec (createMemo_query all_columns formData) s)))) \<and>
   queries (snd (run (createMemo exec formData) s)) = [createMemo_query all_columns formData] \<and>
   store (snd (run (createMemo exec formData) s)) = snd (exec (createMemo_query all_columns formData) s) \<and>
   revalidated (snd (run (createMemo exec formData) s)) = (if row_of (fst (exec (createMemo_query all_columns formData) s)) = None then [] else [''/''])"
proof -
  obtain resp s' where "exec (createMemo_query all_columns formData) s = (resp, s')"
    by (cases "exec (createMemo_query all_columns formData) s")
  then show ?thesis
    by (cases resp rule: response_cases)
      (simp_all add: createMemo_def io_defs createMemo_query_def memos_query_def rows_of_def row_of_def
         succeeded_def logical_or_def form_payload_def)
qed

lemma updateMemo_run:
  "fst (run (updateMemo exec ident formData) s) = Inr (map_option toMemo (row_of (fst (exec (updateMemo_query all_columns ident formData) s)))) \<and>
   queries (snd (run (updateMemo exec ident formData) s)) = [updateMemo_query all_columns ident formData] \<and>
   store (snd (run (updateMemo exec ident formData) s)) = snd (exec (updateMemo_query all_columns ident formData) s) \<and>
   revalidated (snd (run (updateMemo exec ident formData) s)) = (if row_of (fst (exec (updateMemo_query all_columns ident formData) s)) = None then [] else [''/''])"
proof -
  obtain resp s' where "exec (updateMemo_query all_columns ident formData) s = (resp, s')"
    by (cases "exec (updateMemo_query all_columns ident formData) s")
  then show ?thesis
    by (cases resp rule: response_cases)
      (simp_all add: updateMemo_def io_defs updateMemo_query_def memos_query_def rows_of_def row_of_def
         succeeded_def logical_or_def form_payload_def)
qed

lemma deleteMemo_run:
  "fst (run (deleteMemo exec ident) s) = Inr (succeeded (fst (exec (deleteMemo_query ident) s))) \<and>
   queries (snd (run (deleteMemo exec ident) s)) = [deleteMemo_query ident] \<and>
   store (snd (run (deleteMemo exec ident) s)) = snd (exec (deleteMemo_query ident) s) \<and>
   revalidated (snd (run (deleteMemo exec ident) s)) = (if succeeded (fst (exec (deleteMemo_query ident) s)) then [''/''] else [])"
proof -
  obtain resp s' where "exec (deleteMemo_query ident) s = (resp, s')"
    by (cases "exec (deleteMemo_query ident) s")
  then show ?thesis
    by (cases resp rule: response_cases)
      (simp_all add: deleteMemo_def io_defs deleteMemo_query_def memos_query_def rows_of_def row_of_def
         succeeded_def logical_or_def form_payload_def)
qed

lemma searchMemos_run:
  "fst (run (searchMemos exec query) s) = Inr (map toMemo (filter (matches query) (rows_of (fst (exec (searchMemos_query all_columns query) s))))) \<and>
   queries (snd (run (searchMemos exec query) s)) = [searchMemos_query all_columns query] \<and>
   store (snd (run (searchMemos exec query) s)) = snd (exec (searchMemos_query all_columns query) s) \<and>
   revalidated (snd (run (searchMemos exec query) s)) = []"
proof -
  obtain resp s' where "exec (searchMemos_query all_columns query) s = (resp, s')"
    by (cases "exec (searchMemos_query all_columns query) s")
  then show ?thesis
    by (cases resp rule: response_cases)
      (simp_all add: searchMemos_def io_defs searchMemos_query_def memos_query_def rows_of_def row_of_def
         succeeded_def logical_or_def form_payload_def)
qed

lemma getMemosByCategory_run:
  "fst (run (getMemosByCategory exec category) s) = Inr (map toMemo (rows_of (fst (exec (getMemosByCategory_query all_columns category) s)))) \<and>
   queries (snd (run (getMemosByCategory exec category) s)) = [getMemosByCategory_query all_columns category] \<and>
   store (snd (run (getMemosByCategory exec category) s)) = snd (exec (getMemosByCategory_query all_columns category) s) \<and>
   revalidated (snd (run (getMemosByCategory exec category) s)) = []"
proof -
  obtain resp s' where "exec (getMemosByCategory_query all_columns category) s = (resp, s')"
    by (cases "exec (getMemosByCategory_query all_columns category) s")
  then show ?thesis
    by (cases "category = ''all''"; cases resp rule: response_cases)
      (simp_all add: getMemosByCategory_def io_defs getMemosByCategory_query_def memos_query_def rows_of_def row_of_def
         succeeded_def logical_or_def form_payload_def)
qed

lemma getMemos_p0_run:
  "fst (run (getMemos_p0 exec) s) = Inr (map toMemo_p0 (rows_of (fst (exec (getMemos_query ''*'') s)))) \<and>
   queries (snd (run (getMemos_p0 exec) s)) = [getMemos_query ''*''] \<and>
   store (snd (run (getMemos_p0 exec) s)) = snd (exec (getMemos_query ''*'') s) \<and>
   revalidated (snd (run (getMemos_p0 exec) s)) = []"
proof -
  obtain resp s' where "exec (getMemos_query ''*'') s = (resp, s')"
    by (cases "exec (getMemos_query ''*'') s")
  then show ?thesis
    by (cases resp rule: response_cases)
      (simp_all add: getMemos_p0_def io_defs getMemos_query_def memos_query_def rows_of_def row_of_def
         succeeded_def logical_or_def form_payload_def)
qed

lemma getMemoById_p0_run:
  "fst (run (getMemoById_p0 exec ident) s) = Inr (map_option toMemo_p0 (row_of (fst (exec (getMemoById_query ''*'' ident) s)))) \<and>
   queries (snd (run (getMemoById_p0 exec ident) s)) = [getMemoById_query ''*'' ident] \<and>
   store (snd (run (getMemoById_p0 exec ident) s)) = snd (exec (getMemoById_query ''*'' ident) s) \<and>
   revalidated (snd (run (getMemoById_p0 exec ident) s)) = []"
proof -
  obtain resp s' where "exec (getMemoById_query ''*'' ident) s = (resp, s')"
    by (cases "exec (getMemoById_query ''*'' ident) s")
  then show ?thesis
    by (cases resp rule: response_cases)
      (simp_all add: getMemoById_p0_def io_defs getMemoById_query_def memos_query_def rows_of_def row_of_def
         succeeded_def logical_or_def form_payload_def)
qed

lemma createMemo_p0_run:
  "fst (run (createMemo_p0 exec formData) s) = Inr (map_option toMemo_p0 (row_of (fst (exec (createMemo_query ''*'' formData) s)))) \<and>
   queries (snd (run (createMemo_p0 exec formData) s)) = [createMemo_query ''*'' formData] \<and>
   store (snd (run (createMemo_p0 exec formData) s)) = snd (exec (createMemo_query ''*'' formData) s) \<and>
   revalidated (snd (run (createMemo_p0 exec formData) s)) = (if row_of (fst (exec (createMemo_query ''*'' formData) s)) = None then [] else [''/''])"
proof -
  obtain resp s' where "exec (createMemo_query ''*'' formData) s = (resp, s')"
    by (cases "exec (createMemo_query ''*'' formData) s")
  then show ?thesis
    by (cases resp rule: response_cases)
      (simp_all add: createMemo_p0_def io_defs createMemo_query_def memos_query_def rows_of_def row_of_def
         succeeded_def logical_or_def form_payload_def)
qed

lemma updateMemo_p0_run:
  "fst (run (updateMemo_p0 exec ident formData) s) = Inr (map_option toMemo_p0 (row_of (fst (exec (updateMemo_query ''*'' ident formData) s)))) \<and>
   queries (snd (run (updateMemo_p0 exec ident formData) s)) = [updateMemo_query ''*'' ident formData] \<and>
   store (snd (run (updateMemo_p0 exec ident formData) s)) = snd (exec (updateMemo_query ''*'' ident formData) s) \<and>
   revalidated (snd (run (updateMemo_p0 exec ident formData) s)) = (if row_of (fst (exec (updateMemo_query ''*'' ident formData) s)) = None then [] else [''/''])"
proof -
  obtain resp s' where "exec (updateMemo_query ''*'' ident formData) s = (resp, s')"
    by (cases "exec (updateMemo_query ''*'' ident formData) s")
  then show ?thesis
    by (cases resp rule: response_cases)
      (simp_all add: updateMemo_p0_def io_defs updateMemo_query_def memos_query_def rows_of_def row_of_def
         succeeded_def logical_or_def form_payload_def)
qed

lemma deleteMemo_p0_run:
  "fst (run (deleteMemo_p0 exec ident) s) = Inr (succeeded (fst (exec (deleteMemo_query ident) s))) \<and>
   queries (snd (run (deleteMemo_p0 exec ident) s)) = [deleteMemo_query ident] \<and>
   store (snd (run (deleteMemo_p0 exec ident) s)) = snd (exec (deleteMemo_query ident) s) \<and>
   revalidated (snd (run (deleteMemo_p0 exec ident) s)) = (if succeeded (fst (exec (deleteMemo_query ident) s)) then [''/''] else [])"
proof -
  obtain resp s' where "exec (deleteMemo_query ident) s = (resp, s')"
    by (cases "exec (deleteMemo_query ident) s")
  then show ?thesis
    by (cases resp rule: response_cases)
      (simp_all add: deleteMemo_p0_def io_defs deleteMemo_query_def memos_query_def rows_of_def row_of_def
         succeeded_def logical_or_def form_payload_def)
qed

lemma searchMemos_p0_run:
  "fst (run (searchMemos_p0 exec query) s) = Inr (map toMemo_p0 (filter (matches query) (rows_of (fst (exec (searchMemos_query ''*'' query) s))))) \<and>
   queries (snd (run (searchMemos_p0 exec query) s)) = [searchMemos_query ''*'' query] \<and>
   store (snd (run (searchMemos_p0 exec query) s)) = snd (exec (searchMemos_query ''*'' query) s) \<and>
   revalidated (snd (run (searchMemos_p0 exec query) s)) = []"
proof -
  obtain resp s' where "exec (searchMemos_query ''*'' query) s = (resp, s')"
    by (cases "exec (searchMemos_query ''*'' query) s")
  then show ?thesis
    by (cases resp rule: response_cases)
      (simp_all add: searchMemos_p0_def io_defs searchMemos_query_def memos_query_def rows_of_def row_of_def
         succeeded_def logical_or_def form_payload_def)
qed

lemma getMemosByCategory_p0_run:
  "fst (run (getMemosByCategory_p0 exec category) s) = Inr (map toMemo_p0 (rows_of (fst (exec (getMemosByCategory_query ''*'' category) s)))) \<and>
   queries (snd (run (getMemosByCategory_p0 exec category) s)) = [getMemosByCategory_query ''*'' category] \<and>
   store (snd (run (getMemosByCategory_p0 exec category) s)) = snd (exec (getMemosByCategory_query ''*'' category) s) \<and>
   revalidated (snd (run (getMemosByCategory_p0 exec category) s)) = []"
proof -
  obtain resp s' where "exec (getMemosByCategory_query ''*'' category) s = (resp, s')"
    by (cases "exec (getMemosByCategory_query ''*'' category) s")
  then show ?thesis
    by (cases "category = ''all''"; cases resp rule: response_cases)
      (simp_all add: getMemosByCategory_p0_def io_defs getMemosByCategory_query_def memos_query_def rows_of_def row_of_def
         succeeded_def logical_or_def form_payload_def)
qed


section \<open>Texts and patterns\<close>

lemma startsWith_iff: "startsWith s t \<longleftrightarrow> (\<exists>post. s = t @ post)"
  by (induction s t rule: startsWith.induct) auto

lemma str_includes_iff: "str_includes s t \<longleftrightarrow> (\<exists>pre post. s = pre @ t @ post)"
proof (induction s)
  case Nil
  then show ?case by auto
next
  case (Cons d s)
  show ?case
  proof
    assume "str_includes (d # s) t"
    then consider "startsWith (d # s) t" | "str_includes s t" by auto
    then show "\<exists>pre post. d # s = pre @ t @ post"
    proof cases
      case 1
      then obtain post where "d # s = t @ post" by (auto simp: startsWith_iff)
      then have "d # s = [] @ t @ post" by simp
      then show ?thesis by blast
    next
      case 2
      then obtain pre post where "s = pre @ t @ post" using Cons.IH by auto
      then have "d # s = (d # pre) @ t @ post" by simp
      then show ?thesis by blast
    qed
  next
    assume "\<exists>pre post. d # s = pre @ t @ post"
    then obtain pre post where e: "d # s = pre @ t @ post" by auto
    show "str_includes (d # s) t"
    proof (cases pre)
      case Nil
      then have "startsWith (d # s) t" using e by (auto simp: startsWith_iff)
      then show ?thesis by simp
    next
      case (Cons a pre')
      then have "s = pre' @ t @ post" using e by simp
      then have "str_includes s t" using Cons.IH by blast
      then show ?thesis by simp
    qed
  qed
qed

lemma contains_ci_iff:
  "contains_ci s q \<longleftrightarrow> (\<exists>pre post. toLowerCase s = pre @ toLowerCase q @ post)"
  by (simp add: contains_ci_def str_includes_iff)

lemma str_includes_Nil [simp]: "str_includes s []"
  by (cases s) simp_all

lemma like_match_percent_only: "like_match ''%'' s"
  by (induction s) simp_all

lemma like_match_percent:
  "like_match (CHR ''%'' # ps) s \<longleftrightarrow> (\<exists>pre post. s = pre @ post \<and> like_match ps post)"
proof (induction s)
  case Nil
  then show ?case by simp
next
  case (Cons c cs)
  show ?case
  proof
    assume "like_match (CHR ''%'' # ps) (c # cs)"
    then consider "like_match ps (c # cs)" | "like_match (CHR ''%'' # ps) cs" by auto
    then show "\<exists>pre post. c # cs = pre @ post \<and> like_match ps post"
    proof cases
      case 1
      then have "c # cs = [] @ (c # cs) \<and> like_match ps (c # cs)" by simp
      then show ?thesis by blast
    next
      case 2
      then obtain pre post where "cs = pre @ post" "like_match ps post" using Cons.IH by auto
      then have "c # cs = (c # pre) @ post \<and> like_match ps post" by simp
      then show ?thesis by blast
    qed
  next
    assume "\<exists>pre post. c # cs = pre @ post \<and> like_match ps post"
    then obtain pre post where e: "c # cs = pre @ post" "like_match ps post" by auto
    show "like_match (CHR ''%'' # ps) (c # cs)"
    proof (cases pre)
      case Nil
      then have "like_match ps (c # cs)" using e by simp
      then show ?thesis by simp
    next
      case (Cons a pre')
      then have "cs = pre' @ post" using e by simp
      then have "like_match (CHR ''%'' # ps) cs" using e(2) Cons.IH by blast
      then show ?thesis by simp
    qed
  qed
qed

lemma like_match_literal:
  assumes "\<forall>c \<in> set p. c \<notin> set wildcards"
  shows "like_match (p @ ps) s \<longleftrightarrow> (\<exists>rest. s = p @ rest \<and> like_match ps rest)"
  using assms
proof (induction p arbitrary: s)
  case Nil
  then show ?case by simp
next
  case (Cons a p)
  then have a: "a \<noteq> CHR ''%''" "a \<noteq> CHR ''_''" "a \<noteq> CHR 0x5C"
    by (auto simp: wildcards_def)
  from Cons have IH: "like_match (p @ ps) s' \<longleftrightarrow> (\<exists>rest. s' = p @ rest \<and> like_match ps rest)" for s'
    by simp
  show ?case
  proof (cases s)
    case Nil
    then show ?thesis using a by simp
  next
    case (Cons c cs)
    then show ?thesis using a IH by auto
  qed
qed

lemma like_match_infix:
  assumes "\<forall>c \<in> set q. c \<notin> set wildcards"
  shows "like_match (CHR ''%'' # q @ ''%'') s \<longleftrightarrow> str_includes s q"
  by (auto simp: like_match_percent like_match_literal[OF assms] like_match_percent_only
      str_includes_iff)

lemma toLowerCase_char_cases:
  "toLowerCase_char c = c \<or>
   (of_char (toLowerCase_char c) = (of_char c :: nat) + 32 \<and>
    ((65 \<le> (of_char c :: nat) \<and> (of_char c :: nat) \<le> 90) \<or>
     (192 \<le> (of_char c :: nat) \<and> (of_char c :: nat) \<le> 222)))"
  by (auto simp: toLowerCase_char_def Let_def)

lemma wildcard_codes:
  "c \<in> set wildcards \<longleftrightarrow> (of_char c :: nat) \<in> {37, 95, 92, 42}"
proof -
  have k: "c = d \<longleftrightarrow> (of_char c :: nat) = of_char d" for d
    by (simp only: of_char_eq_iff)
  show ?thesis by (simp add: wildcards_def k)
qed

lemma toLowerCase_char_wildcard:
  "toLowerCase_char c \<in> set wildcards \<longleftrightarrow> c \<in> set wildcards"
  using toLowerCase_char_cases [of c] by (auto simp: wildcard_codes)

lemma toLowerCase_literal:
  "(\<forall>c \<in> set (toLowerCase q). c \<notin> set wildcards) \<longleftrightarrow> (\<forall>c \<in> set q. c \<notin> set wildcards)"
  by (simp add: toLowerCase_def toLowerCase_char_wildcard)

lemma star_to_percent_literal:
  "\<forall>c \<in> set q. c \<notin> set wildcards \<Longrightarrow> star_to_percent q = q"
  by (induction q) (auto simp: star_to_percent_def wildcards_def)

lemma toLowerCase_percent: "toLowerCase_char (CHR ''%'') = CHR ''%''"
  by (simp add: toLowerCase_char_def)

lemma ilike_wrap:
  assumes "\<forall>c \<in> set q. c \<notin> set wildcards"
  shows "ilike (CHR ''%'' # q @ ''%'') s = contains_ci s q"
proof -
  have "star_to_percent (CHR ''%'' # q @ ''%'') = CHR ''%'' # q @ ''%''"
    using star_to_percent_literal [OF assms] by (simp add: star_to_percent_def)
  then have "toLowerCase (star_to_percent (CHR ''%'' # q @ ''%'')) =
      CHR ''%'' # toLowerCase q @ ''%''"
    by (simp add: toLowerCase_def toLowerCase_percent)
  moreover have "\<forall>c \<in> set (toLowerCase q). c \<notin> set wildcards"
    using assms by (simp add: toLowerCase_literal)
  ultimately show ?thesis
    by (simp add: ilike_def contains_ci_def like_match_infix)
qed

lemma like_match_percent_cons: "like_match ps s \<Longrightarrow> like_match (CHR ''%'' # ps) s"
  by (cases s) auto

lemma ilike_all: "ilike ''%%'' s"
  by (simp add: ilike_def star_to_percent_def toLowerCase_def toLowerCase_percent
      like_match_percent_cons like_match_percent_only)

section \<open>Reading the filter string\<close>

lemma split_on_none: "c \<notin> set s \<Longrightarrow> split_on c s = [s]"
  by (induction s) auto

lemma split_on_append: "c \<notin> set a \<Longrightarrow> split_on c (a @ c # b) = a # split_on c b"
  by (induction a) auto

lemma parse_or_paren: "CHR ''('' \<in> set s \<or> CHR '')'' \<in> set s \<Longrightarrow> parse_or s = None"
  by (simp add: parse_or_def)

lemma parse_cond_title: "parse_cond (''title.ilike.'' @ v) = Some (Ilike Title v)"
  by (simp add: parse_cond_def column_named_def)

lemma parse_cond_content: "parse_cond (''content.ilike.'' @ v) = Some (Ilike Content v)"
  by (simp add: parse_cond_def column_named_def)

lemma parse_or_search:
  assumes "CHR '','' \<notin> set q" "CHR ''('' \<notin> set q" "CHR '')'' \<notin> set q"
  shows "parse_or (''title.ilike.'' @ (''%'' @ q @ ''%'') @ '',content.ilike.'' @ (''%'' @ q @ ''%'')) =
     Some [Ilike Title (''%'' @ q @ ''%''), Ilike Content (''%'' @ q @ ''%'')]"
proof -
  let ?a = "''title.ilike.'' @ (''%'' @ q @ ''%'')"
  let ?b = "''content.ilike.'' @ (''%'' @ q @ ''%'')"
  have s: "''title.ilike.'' @ (''%'' @ q @ ''%'') @ '',content.ilike.'' @ (''%'' @ q @ ''%'') =
      ?a @ CHR '','' # ?b"
    by simp
  have na: "CHR '','' \<notin> set ?a" and nb: "CHR '','' \<notin> set ?b"
    using assms(1) by simp_all
  have "split_on CHR '','' (?a @ CHR '','' # ?b) = ?a # split_on CHR '','' ?b"
    using na by (rule split_on_append)
  moreover have "split_on CHR '','' ?b = [?b]"
    using nb by (rule split_on_none)
  ultimately have "split_on CHR '','' (?a @ CHR '','' # ?b) = [?a, ?b]"
    by (simp only:)
  moreover have "CHR ''('' \<notin> set (?a @ CHR '','' # ?b)" "CHR '')'' \<notin> set (?a @ CHR '','' # ?b)"
    using assms(2,3) by simp_all
  ultimately have "parse_or (?a @ CHR '','' # ?b) = those [parse_cond ?a, parse_cond ?b]"
    by (simp only: parse_or_def list.map if_False simp_thms)
  then show ?thesis
    by (simp only: s parse_cond_title parse_cond_content those.simps option.case option.map)
qed


section \<open>Running the operations against the storage\<close>

lemma pg_rows_select:
  assumes "q_verb b = Select" "\<not> q_single b" "q_columns b = Some cols" "well_formed b"
  shows "pg_rows uuid now b t = (Resolved (Some (ordered (q_order b) (filter (selected b) t))) None, t)"
  using assms by (simp add: pg_rows_def pg_exec_def pg_statement_def)

lemma pg_rows_malformed:
  assumes "\<not> well_formed b"
  shows "pg_rows uuid now b t = (Resolved None (Some (PgError ''PGRST100'')), t)"
  using assms by (simp add: pg_rows_def pg_exec_def pg_statement_def)

lemma newest_first: "ordered (Some (Created_at, False)) rs = rev (sort_key created_at rs)"
proof -
  have "time_of Created_at = created_at" by (rule ext) (simp add: time_of_def)
  then show ?thesis by (simp add: ordered_def)
qed

lemma pg_getMemos:
  "rows_of (fst (pg_rows uuid now (getMemos_query cols) t)) = rev (sort_key created_at t)"
  by (simp add: pg_rows_select[where cols=cols] getMemos_query_def memos_query_def newest_first
      selected_def well_formed_def rows_of_def)

lemma pg_getMemosByCategory:
  "rows_of (fst (pg_rows uuid now (getMemosByCategory_query cols c) t)) =
     rev (sort_key created_at (if c = ''all'' then t else filter (\<lambda>r. row_category r = c) t))"
proof -
  have "selected (getMemosByCategory_query cols c) =
          (\<lambda>r. c = ''all'' \<or> row_category r = c)"
    by (rule ext)
      (simp add: selected_def filter_holds_def getMemosByCategory_query_def memos_query_def
        text_of_def)
  moreover have "well_formed (getMemosByCategory_query cols c)"
    by (simp add: well_formed_def getMemosByCategory_query_def memos_query_def)
  ultimately show ?thesis
    by (simp add: pg_rows_select[where cols=cols] getMemosByCategory_query_def memos_query_def
        newest_first rows_of_def)
qed

text \<open>
  The search query. Its one filter is the string built from the query text. When the
  text holds no comma and no parenthesis the string reads as the two conditions on title
  and content; when it holds no wildcard either, each condition is the plain substring
  test. A parenthesis in the text makes the query malformed.
\<close>

lemma searchMemos_query_filters:
  "q_filters (searchMemos_query cols q) =
     [Or (''title.ilike.'' @ (''%'' @ q @ ''%'') @ '',content.ilike.'' @ (''%'' @ q @ ''%''))]"
  "q_verb (searchMemos_query cols q) = Select"
  "\<not> q_single (searchMemos_query cols q)"
  "q_columns (searchMemos_query cols q) = Some cols"
  "q_order (searchMemos_query cols q) = Some (Created_at, False)"
  by (simp_all add: searchMemos_query_def memos_query_def)

lemma search_conds:
  assumes "CHR '','' \<notin> set q" "CHR ''('' \<notin> set q" "CHR '')'' \<notin> set q"
  shows "filter_conds
           (Or (''title.ilike.'' @ (''%'' @ q @ ''%'') @ '',content.ilike.'' @ (''%'' @ q @ ''%''))) =
         Some [Ilike Title (''%'' @ q @ ''%''), Ilike Content (''%'' @ q @ ''%'')]"
  by (simp only: filter_conds.simps parse_or_search [OF assms])

lemma search_well_formed:
  assumes "CHR '','' \<notin> set q" "CHR ''('' \<notin> set q" "CHR '')'' \<notin> set q"
  shows "well_formed (searchMemos_query cols q)"
  by (simp only: well_formed_def searchMemos_query_filters search_conds [OF assms]
      list_all_Nil_iff list_all_Cons_iff option.distinct simp_thms)

lemma search_selected:
  assumes "CHR '','' \<notin> set q" "CHR ''('' \<notin> set q" "CHR '')'' \<notin> set q"
    and "\<forall>c \<in> set q. c \<notin> set wildcards"
  shows "selected (searchMemos_query cols q) = title_or_content q"
proof (rule ext)
  fix r
  have "selected (searchMemos_query cols q) r =
      (ilike (''%'' @ q @ ''%'') (text_of Title r) \<or> ilike (''%'' @ q @ ''%'') (text_of Content r))"
    by (simp only: selected_def searchMemos_query_filters filter_holds_def
        search_conds [OF assms(1-3)] list_all_Nil_iff list_all_Cons_iff list_ex_Nil_iff list_ex_Cons_iff option.case cond_holds.simps
        simp_thms)
  also have "\<dots> = title_or_content q r"
    by (simp add: ilike_wrap [OF assms(4)] text_of_def title_or_content_def)
  finally show "selected (searchMemos_query cols q) r = title_or_content q r" .
qed

lemma search_malformed:
  assumes "CHR ''('' \<in> set q \<or> CHR '')'' \<in> set q"
  shows "\<not> well_formed (searchMemos_query cols q)"
proof -
  let ?s = "''title.ilike.'' @ (''%'' @ q @ ''%'') @ '',content.ilike.'' @ (''%'' @ q @ ''%'')"
  have "CHR ''('' \<in> set ?s \<or> CHR '')'' \<in> set ?s" using assms by auto
  then have "filter_conds (Or ?s) = None"
    by (simp only: filter_conds.simps parse_or_paren)
  then show ?thesis
    by (simp only: well_formed_def searchMemos_query_filters list_all_Nil_iff list_all_Cons_iff simp_thms)
qed

lemma pg_searchMemos_well_formed:
  assumes "well_formed (searchMemos_query cols q)"
  shows "rows_of (fst (pg_rows uuid now (searchMemos_query cols q) t)) =
     rev (sort_key created_at (filter (selected (searchMemos_query cols q)) t))"
proof -
  have "pg_rows uuid now (searchMemos_query cols q) t =
      (Resolved (Some (ordered (q_order (searchMemos_query cols q))
         (filter (selected (searchMemos_query cols q)) t))) None, t)"
    using searchMemos_query_filters(2-4) assms by (rule pg_rows_select)
  then show ?thesis
    by (simp add: searchMemos_query_filters(5) newest_first rows_of_def)
qed

lemma pg_searchMemos:
  assumes "CHR '','' \<notin> set q" "CHR ''('' \<notin> set q" "CHR '')'' \<notin> set q"
    and "\<forall>c \<in> set q. c \<notin> set wildcards"
  shows "rows_of (fst (pg_rows uuid now (searchMemos_query cols q) t)) =
     rev (sort_key created_at (filter (title_or_content q) t))"
  by (simp add: pg_searchMemos_well_formed search_well_formed [OF assms(1-3)]
      search_selected [OF assms])

lemma pg_searchMemos_malformed:
  assumes "\<not> well_formed (searchMemos_query cols q)"
  shows "rows_of (fst (pg_rows uuid now (searchMemos_query cols q) t)) = []"
  by (simp add: pg_rows_malformed [OF assms] rows_of_def)

lemma pg_searchMemos_any:
  "\<exists>P. rows_of (fst (pg_rows uuid now (searchMemos_query cols q) t)) =
     rev (sort_key created_at (filter P t))"
proof (cases "well_formed (searchMemos_query cols q)")
  case True
  then have "rows_of (fst (pg_rows uuid now (searchMemos_query cols q) t)) =
      rev (sort_key created_at (filter (selected (searchMemos_query cols q)) t))"
    by (rule pg_searchMemos_well_formed)
  then show ?thesis by blast
next
  case False
  then have "rows_of (fst (pg_rows uuid now (searchMemos_query cols q) t)) =
      rev (sort_key created_at (filter (\<lambda>r. False) t))"
    by (simp add: pg_searchMemos_malformed)
  then show ?thesis by blast
qed

lemma title_or_content_matches: "title_or_content q r \<Longrightarrow> matches q r"
  by (auto simp: title_or_content_def matches_def contains_ci_def Let_def)

lemma filter_matches_selected:
  "filter (matches q) (rev (sort_key created_at (filter (title_or_content q) t))) =
     rev (sort_key created_at (filter (title_or_content q) t))"
  by (rule filter_True) (auto intro: title_or_content_matches)

text \<open>
  For a query text without comma, parenthesis and wildcard the search returns the memos
  of exactly the rows whose title or content contains the text, newest first.
\<close>

lemma searchMemos_pg:
  assumes "CHR '','' \<notin> set q" "CHR ''('' \<notin> set q" "CHR '')'' \<notin> set q"
    and "\<forall>c \<in> set q. c \<notin> set wildcards"
  shows "fst (run (searchMemos (pg_rows uuid now) q) t) =
     Inr (map toMemo (rev (sort_key created_at (filter (title_or_content q) t))))"
  by (simp add: searchMemos_run pg_searchMemos [OF assms] filter_matches_selected)

lemma searchMemos_pg_malformed:
  assumes "CHR ''('' \<in> set q \<or> CHR '')'' \<in> set q"
  shows "fst (run (searchMemos (pg_rows uuid now) q) t) = Inr []"
  by (simp add: searchMemos_run pg_searchMemos_malformed [OF search_malformed [OF assms]])

lemma searchMemos_pg_any:
  "\<exists>P. fst (run (searchMemos (pg_rows uuid now) q) t) =
     Inr (map toMemo (rev (sort_key created_at (filter P t))))"
proof -
  obtain P where "rows_of (fst (pg_rows uuid now (searchMemos_query all_columns q) t)) =
      rev (sort_key created_at (filter P t))"
    using pg_searchMemos_any by blast
  then have "fst (run (searchMemos (pg_rows uuid now) q) t) =
      Inr (map toMemo (rev (sort_key created_at (filter (\<lambda>r. P r \<and> matches q r) t))))"
    by (simp add: searchMemos_run rev_filter [symmetric] filter_sort)
  then show ?thesis by blast
qed

lemma getMemos_pg:
  "fst (run (getMemos (pg_rows uuid now)) t) = Inr (map toMemo (rev (sort_key created_at t)))"
  by (simp add: getMemos_run pg_getMemos)

lemma getMemosByCategory_pg:
  "fst (run (getMemosByCategory (pg_rows uuid now) c) t) =
     Inr (map toMemo (rev (sort_key created_at
        (if c = ''all'' then t else filter (\<lambda>r. row_category r = c) t))))"
  by (simp add: getMemosByCategory_run pg_getMemosByCategory)

lemma newest_first_strict:
  assumes "distinct (map created_at rs)"
  shows "sorted_wrt (\<lambda>a b. createdAt b < createdAt a) (map toMemo (rev (sort_key created_at rs)))"
proof -
  have "sorted (map created_at (sort_key created_at rs))" by simp
  moreover have "distinct (map created_at (sort_key created_at rs))"
    using assms by (simp add: distinct_map)
  ultimately have "sorted_wrt (<) (map created_at (sort_key created_at rs))"
    by (simp add: strict_sorted_iff)
  then have "sorted_wrt (\<lambda>a b. created_at a < created_at b) (sort_key created_at rs)"
    by (simp add: sorted_wrt_map)
  then have "sorted_wrt (\<lambda>a b. created_at b < created_at a) (rev (sort_key created_at rs))"
    by (simp add: sorted_wrt_rev)
  then show ?thesis by (simp add: sorted_wrt_map toMemo_def)
qed

lemma newest_first_sorted:
  "sorted_wrt (\<lambda>a b. createdAt b \<le> createdAt a) (map toMemo (rev (sort_key created_at rs)))"
proof -
  have "sorted (map created_at (sort_key created_at rs))" by simp
  then have "sorted_wrt (\<lambda>a b. created_at a \<le> created_at b) (sort_key created_at rs)"
    by (simp add: sorted_wrt_map)
  then have "sorted_wrt (\<lambda>a b. created_at b \<le> created_at a) (rev (sort_key created_at rs))"
    by (simp add: sorted_wrt_rev)
  then show ?thesis by (simp add: sorted_wrt_map toMemo_def)
qed

lemma title_or_content_empty: "title_or_content [] r"
  by (simp add: title_or_content_def contains_ci_def toLowerCase_def)

section \<open>Search\<close>

text \<open>
  Whatever the storage is, the search returns memos of rows the storage delivered and of
  no other rows: the filter callback, its tag test included, only narrows the answer.
\<close>

lemma searchMemos_within_delivered:
  assumes "fst (run (searchMemos exec q) s) = Inr ms"
  shows "set ms \<subseteq> toMemo ` set (rows_of (fst (exec (searchMemos_query all_columns q) s)))"
  using assms by (auto simp: searchMemos_run)

text \<open>
  Claim C1: for every query \<open>q\<close>, \<^verbatim>\<open>searchMemos(q)\<close> returns exactly the memos whose title
  or content contains \<open>q\<close>, letter case ignored, or one of whose tags does. The code
  does not: the storage selects on title and content alone, and the tag test of the
  filter callback only sees the rows the storage selected. In a table holding the one
  memo with title \<^verbatim>\<open>x\<close>, content \<^verbatim>\<open>y\<close> and tags \<^verbatim>\<open>["urgent"]\<close>, the search for
  \<^verbatim>\<open>urgent\<close> returns nothing, although a tag of the memo contains the query and the
  filter callback would accept the row.
\<close>

theorem search_misses_tag_only_memo:
  "fst (run (searchMemos (pg_rows ''u'' 0) ''urgent'') [urgent_memo]) = Inr [] \<and>
   list_ex (\<lambda>tag. contains_ci tag ''urgent'') (nullish (row_tags urgent_memo) []) \<and>
   matches ''urgent'' urgent_memo"
  by code_simp

text \<open>
  Claim C2: for every query \<open>q\<close>, a memo that matches \<open>q\<close> in its tags only, neither its
  title nor its content containing \<open>q\<close>, is not returned by \<^verbatim>\<open>searchMemos(q)\<close>. Not for
  every query: the query text goes into the pattern as it is, and the pattern language
  reads an underscore as any one character. In a table holding the one memo with title
  \<^verbatim>\<open>x\<close>, content \<^verbatim>\<open>y\<close> and tags \<^verbatim>\<open>["a_b"]\<close>, the search for \<^verbatim>\<open>_\<close> has the storage
  deliver the row, every title of one character or more matching \<^verbatim>\<open>%_%\<close>, and the
  filter callback keeps it on its tag.
\<close>

theorem search_returns_tag_only_match:
  "\<not> contains_ci (row_title underscore_memo) ''_'' \<and>
   \<not> contains_ci (row_content underscore_memo) ''_'' \<and>
   list_ex (\<lambda>tag. contains_ci tag ''_'') (nullish (row_tags underscore_memo) []) \<and>
   fst (run (searchMemos (pg_rows ''u'' 0) ''_'') [underscore_memo]) =
     Inr [toMemo underscore_memo]"
  by code_simp

text \<open>
  The same happens with each of the other characters excluded below: a percent sign, an
  asterisk and a backslash in the query change what the pattern matches, and a comma
  splits the filter string into further conditions.
\<close>

lemma search_returns_tag_only_match_percent:
  "\<not> contains_ci (row_title percent_memo) ''%'' \<and>
   \<not> contains_ci (row_content percent_memo) ''%'' \<and>
   fst (run (searchMemos (pg_rows ''u'' 0) ''%'') [percent_memo]) = Inr [toMemo percent_memo]"
  by code_simp

lemma search_returns_tag_only_match_asterisk:
  "\<not> contains_ci (row_title asterisk_memo) ''*'' \<and>
   \<not> contains_ci (row_content asterisk_memo) ''*'' \<and>
   fst (run (searchMemos (pg_rows ''u'' 0) ''*'') [asterisk_memo]) = Inr [toMemo asterisk_memo]"
  by code_simp

lemma search_returns_tag_only_match_backslash:
  "\<not> contains_ci (row_title backslash_memo) [CHR 0x5C] \<and>
   \<not> contains_ci (row_content backslash_memo) [CHR 0x5C] \<and>
   fst (run (searchMemos (pg_rows ''u'' 0) [CHR 0x5C]) [backslash_memo]) =
     Inr [toMemo backslash_memo]"
  by code_simp

lemma search_returns_tag_only_match_comma:
  "\<not> contains_ci (row_title comma_memo) ''b,content.ilike.y'' \<and>
   \<not> contains_ci (row_content comma_memo) ''b,content.ilike.y'' \<and>
   fst (run (searchMemos (pg_rows ''u'' 0) ''b,content.ilike.y'') [comma_memo]) =
     Inr [toMemo comma_memo]"
  by code_simp

text \<open>
  Claim C2, amended: for every query \<open>q\<close> that holds no comma and none of the wildcard
  characters percent sign, underscore, backslash and asterisk, a memo that matches \<open>q\<close>
  in its tags only, neither its title nor its content containing \<open>q\<close>, is not returned by
  \<^verbatim>\<open>searchMemos(q)\<close>. The search returns, and no memo whose title and content both lack
  \<open>q\<close> is among the memos returned, whatever its tags.
\<close>

theorem search_drops_tag_only_match:
  assumes "set q \<inter> set (CHR '','' # wildcards) = {}"
    and "\<not> contains_ci (row_title r) q" and "\<not> contains_ci (row_content r) q"
  shows "\<exists>ms. fst (run (searchMemos (pg_rows uuid now) q) t) = Inr ms \<and> toMemo r \<notin> set ms"
proof (cases "CHR ''('' \<in> set q \<or> CHR '')'' \<in> set q")
  case True
  then have "fst (run (searchMemos (pg_rows uuid now) q) t) = Inr []"
    by (rule searchMemos_pg_malformed)
  then show ?thesis by simp
next
  case False
  from assms(1) have plain: "CHR '','' \<notin> set q" "\<forall>c \<in> set q. c \<notin> set wildcards"
    by auto
  let ?found = "rev (sort_key created_at (filter (title_or_content q) t))"
  have found: "fst (run (searchMemos (pg_rows uuid now) q) t) = Inr (map toMemo ?found)"
    using plain False by (simp add: searchMemos_pg)
  have "toMemo r \<notin> set (map toMemo ?found)"
  proof
    assume "toMemo r \<in> set (map toMemo ?found)"
    then obtain r' where r': "r' \<in> set t" "title_or_content q r'" "toMemo r' = toMemo r"
      by auto
    from r'(3) have "row_title r' = row_title r" "row_content r' = row_content r"
      by (simp_all add: toMemo_def)
    with r'(2) assms(2,3) show False by (simp add: title_or_content_def)
  qed
  with found show ?thesis by simp
qed

theorem search_drops_tag_only_match_witness:
  "set ''urgent'' \<inter> set (CHR '','' # wildcards) = {} \<and>
   \<not> contains_ci (row_title urgent_memo) ''urgent'' \<and>
   \<not> contains_ci (row_content urgent_memo) ''urgent'' \<and>
   list_ex (\<lambda>tag. contains_ci tag ''urgent'') (nullish (row_tags urgent_memo) []) \<and>
   (\<exists>ms. fst (run (searchMemos (pg_rows ''u'' 0) ''urgent'') [urgent_memo, milk_memo]) = Inr ms \<and>
      toMemo urgent_memo \<notin> set ms)"
proof -
  have p: "set ''urgent'' \<inter> set (CHR '','' # wildcards) = {}" by code_simp
  have a: "\<not> contains_ci (row_title urgent_memo) ''urgent''" by code_simp
  have b: "\<not> contains_ci (row_content urgent_memo) ''urgent''" by code_simp
  have c: "list_ex (\<lambda>tag. contains_ci tag ''urgent'') (nullish (row_tags urgent_memo) [])"
    by code_simp
  show ?thesis
    using p a b c
      search_drops_tag_only_match [OF p a b, of "''u''" 0 "[urgent_memo, milk_memo]"]
    by simp
qed

text \<open>
  Claim C10: \<^verbatim>\<open>searchMemos("")\<close>, the search for the empty string, returns every memo in
  the store, newest first: the same list as \<^verbatim>\<open>getMemos()\<close>, with one memo for each row
  of the table, in descending order of \<^verbatim>\<open>createdAt\<close>.
\<close>

theorem search_empty_query_lists_all:
  "fst (run (searchMemos (pg_rows uuid now) '''') t) = fst (run (getMemos (pg_rows uuid now)) t) \<and>
   (\<exists>ms. fst (run (searchMemos (pg_rows uuid now) '''') t) = Inr ms \<and>
      set ms = toMemo ` set t \<and> length ms = length t \<and>
      sorted_wrt (\<lambda>a b. createdAt b \<le> createdAt a) ms)"
proof -
  have "filter (title_or_content []) t = t"
    by (rule filter_True) (simp add: title_or_content_empty)
  then have "fst (run (searchMemos (pg_rows uuid now) '''') t) =
      Inr (map toMemo (rev (sort_key created_at t)))"
    by (simp add: searchMemos_pg [of "[]"])
  then show ?thesis
    by (simp add: getMemos_pg newest_first_sorted)
qed

theorem search_empty_query_lists_all_witness:
  "fst (run (searchMemos (pg_rows ''u'' 0) '''') [urgent_memo, milk_memo]) =
     Inr [toMemo milk_memo, toMemo urgent_memo]"
proof -
  have "fst (run (getMemos (pg_rows ''u'' 0)) [urgent_memo, milk_memo]) =
      Inr [toMemo milk_memo, toMemo urgent_memo]"
    by code_simp
  then show ?thesis
    using search_empty_query_lists_all [of "''u''" 0 "[urgent_memo, milk_memo]"] by simp
qed

section \<open>Listings\<close>

text \<open>
  Claim C6: in every store state whose memos have pairwise distinct \<^verbatim>\<open>createdAt\<close>, the
  lists returned by \<^verbatim>\<open>getMemos\<close>, \<^verbatim>\<open>searchMemos\<close> and \<^verbatim>\<open>getMemosByCategory\<close> are in
  descending order of \<^verbatim>\<open>createdAt\<close>: each memo is strictly newer than every memo after
  it.
\<close>

theorem listings_newest_first:
  assumes "distinct (map created_at t)"
  shows "(\<exists>ms. fst (run (getMemos (pg_rows uuid now)) t) = Inr ms \<and>
            sorted_wrt (\<lambda>a b. createdAt b < createdAt a) ms) \<and>
         (\<exists>ms. fst (run (searchMemos (pg_rows uuid now) q) t) = Inr ms \<and>
            sorted_wrt (\<lambda>a b. createdAt b < createdAt a) ms) \<and>
         (\<exists>ms. fst (run (getMemosByCategory (pg_rows uuid now) c) t) = Inr ms \<and>
            sorted_wrt (\<lambda>a b. createdAt b < createdAt a) ms)"
proof -
  have sub: "distinct (map created_at (filter P t))" for P
    using assms by (rule distinct_map_filter)
  have "sorted_wrt (\<lambda>a b. createdAt b < createdAt a)
          (map toMemo (rev (sort_key created_at t)))"
    using assms by (rule newest_first_strict)
  moreover obtain P where
    "fst (run (searchMemos (pg_rows uuid now) q) t) =
       Inr (map toMemo (rev (sort_key created_at (filter P t))))"
    using searchMemos_pg_any by blast
  moreover have "sorted_wrt (\<lambda>a b. createdAt b < createdAt a)
          (map toMemo (rev (sort_key created_at (filter P t))))"
    using sub by (rule newest_first_strict)
  moreover have "sorted_wrt (\<lambda>a b. createdAt b < createdAt a)
          (map toMemo (rev (sort_key created_at
             (if c = ''all'' then t else filter (\<lambda>r. row_category r = c) t))))"
    using assms sub by (simp add: newest_first_strict)
  ultimately show ?thesis
    by (simp add: getMemos_pg getMemosByCategory_pg)
qed

theorem listings_newest_first_witness:
  "distinct (map created_at [urgent_memo, milk_memo]) \<and>
   fst (run (getMemos (pg_rows ''u'' 0)) [urgent_memo, milk_memo]) =
     Inr [toMemo milk_memo, toMemo urgent_memo] \<and>
   (\<exists>ms. fst (run (getMemos (pg_rows ''u'' 0)) [urgent_memo, milk_memo]) = Inr ms \<and>
      sorted_wrt (\<lambda>a b. createdAt b < createdAt a) ms) \<and>
   (\<exists>ms. fst (run (searchMemos (pg_rows ''u'' 0) ''t'') [urgent_memo, milk_memo]) = Inr ms \<and>
      sorted_wrt (\<lambda>a b. createdAt b < createdAt a) ms) \<and>
   (\<exists>ms. fst (run (getMemosByCategory (pg_rows ''u'' 0) ''todo'') [urgent_memo, milk_memo]) = Inr ms \<and>
      sorted_wrt (\<lambda>a b. createdAt b < createdAt a) ms)"
proof -
  have d: "distinct (map created_at [urgent_memo, milk_memo])" by code_simp
  have e: "fst (run (getMemos (pg_rows ''u'' 0)) [urgent_memo, milk_memo]) =
      Inr [toMemo milk_memo, toMemo urgent_memo]"
    by code_simp
  show ?thesis
    using d e listings_newest_first [OF d, of "''u''" 0 "''t''" "''todo''"] by blast
qed

text \<open>
  Claim C5: \<^verbatim>\<open>getMemosByCategory("all")\<close> sends a query with no filter and returns what
  \<^verbatim>\<open>getMemos()\<close> returns; for every other category \<open>c\<close> it returns exactly the memos of
  the rows whose category is \<open>c\<close>.
\<close>

theorem category_listing:
  "fst (run (getMemosByCategory (pg_rows uuid now) ''all'') t) =
     fst (run (getMemos (pg_rows uuid now)) t) \<and>
   map q_filters (queries (snd (run (getMemosByCategory (pg_rows uuid now) ''all'') t))) = [[]] \<and>
   (c \<noteq> ''all'' \<longrightarrow>
      (\<exists>ms. fst (run (getMemosByCategory (pg_rows uuid now) c) t) = Inr ms \<and>
         ms = map toMemo (rev (sort_key created_at (filter (\<lambda>r. row_category r = c) t))) \<and>
         set ms = toMemo ` {r \<in> set t. row_category r = c}))"
proof -
  have "map q_filters (queries (snd (run (getMemosByCategory (pg_rows uuid now) ''all'') t))) = [[]]"
    by (simp add: getMemosByCategory_run getMemosByCategory_query_def memos_query_def)
  then show ?thesis
    by (simp add: getMemosByCategory_pg getMemos_pg)
qed

theorem category_listing_witness:
  "fst (run (getMemosByCategory (pg_rows ''u'' 0) ''all'') [urgent_memo, milk_memo]) =
     Inr [toMemo milk_memo, toMemo urgent_memo] \<and>
   ''todo'' \<noteq> ''all'' \<and>
   (\<exists>ms. fst (run (getMemosByCategory (pg_rows ''u'' 0) ''todo'') [urgent_memo, milk_memo]) = Inr ms \<and>
      set ms = toMemo ` {r \<in> set [urgent_memo, milk_memo]. row_category r = ''todo''})"
proof -
  have "fst (run (getMemos (pg_rows ''u'' 0)) [urgent_memo, milk_memo]) =
      Inr [toMemo milk_memo, toMemo urgent_memo]"
    by code_simp
  then show ?thesis
    using category_listing [of "''u''" 0 "[urgent_memo, milk_memo]" "''todo''"] by simp
qed

section \<open>Writes\<close>

lemma pg_deleteMemo:
  "pg_rows uuid now (deleteMemo_query ident) t =
     (Resolved None None, filter (\<lambda>r. row_id r \<noteq> ident) t)"
  by (simp add: pg_rows_def pg_exec_def pg_statement_def deleteMemo_query_def memos_query_def
      selected_def filter_holds_def well_formed_def text_of_def)

lemma filter_absent_id: "ident \<notin> set (map row_id t) \<Longrightarrow> filter (\<lambda>r. row_id r \<noteq> ident) t = t"
  by (rule filter_True) auto

text \<open>
  Claim C7: for every id, \<^verbatim>\<open>deleteMemo(id)\<close> returns true whenever the storage reports no
  error, also when no row has that id. Any response without an error makes it return
  true; the storage answers every delete without an error, and a delete of an id that no
  row has leaves the table as it was.
\<close>

theorem delete_reports_success:
  "(succeeded (fst (exec (deleteMemo_query ident) s)) \<longrightarrow>
      fst (run (deleteMemo exec ident) s) = Inr True) \<and>
   fst (run (deleteMemo (pg_rows uuid now) ident) t) = Inr True \<and>
   (ident \<notin> set (map row_id t) \<longrightarrow>
      store (snd (run (deleteMemo (pg_rows uuid now) ident) t)) = t)"
  by (simp add: deleteMemo_run pg_deleteMemo succeeded_def filter_absent_id)

theorem delete_reports_success_witness:
  "succeeded (fst (pg_rows ''u'' 0 (deleteMemo_query ''9'') [urgent_memo])) \<and>
   ''9'' \<notin> set (map row_id [urgent_memo]) \<and>
   fst (run (deleteMemo (pg_rows ''u'' 0) ''9'') [urgent_memo]) = Inr True \<and>
   store (snd (run (deleteMemo (pg_rows ''u'' 0) ''9'') [urgent_memo])) = [urgent_memo]"
proof -
  have a: "succeeded (fst (pg_rows ''u'' 0 (deleteMemo_query ''9'') [urgent_memo]))"
    by code_simp
  have b: "''9'' \<notin> set (map row_id [urgent_memo])" by code_simp
  show ?thesis
    using a b delete_reports_success [of "pg_rows ''u'' 0" "''9''" "[urgent_memo]" "''u''" 0 "[urgent_memo]"]
    by simp
qed

lemma pg_createMemo:
  assumes "uuid \<notin> set (map row_id t)"
  shows "pg_single uuid now (createMemo_query cols formData) t =
     (Resolved (Some (new_row uuid now (form_payload formData))) None,
      t @ [new_row uuid now (form_payload formData)])"
  using assms
  by (simp add: pg_single_def pg_exec_def pg_statement_def createMemo_query_def memos_query_def
      well_formed_def)

lemma pg_getMemoById_new:
  assumes "row_id r = ident" and "ident \<notin> set (map row_id t)"
  shows "pg_single uuid now (getMemoById_query cols ident) (t @ [r]) =
     (Resolved (Some r) None, t @ [r])"
proof -
  have "filter (selected (getMemoById_query cols ident)) t = []"
    using assms(2)
    by (auto simp: filter_empty_conv selected_def filter_holds_def getMemoById_query_def
        memos_query_def text_of_def)
  moreover have "selected (getMemoById_query cols ident) r"
    using assms(1)
    by (simp add: selected_def filter_holds_def getMemoById_query_def memos_query_def text_of_def)
  ultimately have "filter (selected (getMemoById_query cols ident)) (t @ [r]) = [r]" by simp
  moreover have "q_verb (getMemoById_query cols ident) = Select"
    "q_order (getMemoById_query cols ident) = None"
    "q_columns (getMemoById_query cols ident) = Some cols"
    "well_formed (getMemoById_query cols ident)"
    by (simp_all add: getMemoById_query_def memos_query_def well_formed_def)
  ultimately show ?thesis
    by (simp add: pg_single_def pg_exec_def pg_statement_def ordered_def)
qed

text \<open>
  Claim C8: for every form with \<^verbatim>\<open>tags\<close> omitted, \<^verbatim>\<open>createMemo\<close> sends an empty tags
  sequence to the storage, and the memo read back afterwards has \<^verbatim>\<open>tags == []\<close>. The one
  query sent is an insert whose payload has empty tags, whatever the storage answers;
  against the storage, with an id that is new to the table, the memo created has empty
  tags and \<^verbatim>\<open>getMemoById\<close> of its id then returns a memo with empty tags.
\<close>

theorem create_without_tags:
  assumes "fd_tags formData = None" and "uuid \<notin> set (map row_id t)"
  shows "(\<exists>p. map q_verb (queries (snd (run (createMemo exec formData) s))) = [Insert p] \<and>
            p_tags p = []) \<and>
         (\<exists>m. fst (run (createMemo (pg_single uuid now) formData) t) = Inr (Some m) \<and>
            memo_tags m = [] \<and>
            (\<exists>m'. fst (run (getMemoById (pg_single uuid' now') (memo_id m))
                        (store (snd (run (createMemo (pg_single uuid now) formData) t)))) =
                     Inr (Some m') \<and>
                   memo_tags m' = []))"
proof -
  let ?r = "new_row uuid now (form_payload formData)"
  have tags: "p_tags (form_payload formData) = []"
    using assms(1) by (simp add: form_payload_def logical_or_def)
  have sent: "map q_verb (queries (snd (run (createMemo exec formData) s))) =
      [Insert (form_payload formData)]"
    by (simp add: createMemo_run createMemo_query_def memos_query_def)
  have created: "fst (run (createMemo (pg_single uuid now) formData) t) = Inr (Some (toMemo ?r))"
    and stored: "store (snd (run (createMemo (pg_single uuid now) formData) t)) = t @ [?r]"
    using assms(2) by (simp_all add: createMemo_run pg_createMemo row_of_def)
  have rt: "memo_tags (toMemo ?r) = []" and rid: "memo_id (toMemo ?r) = uuid"
    using tags by (simp_all add: toMemo_def new_row_def nullish_def)
  have "row_id ?r = uuid" by (simp add: new_row_def)
  then have again: "fst (run (getMemoById (pg_single uuid' now') uuid) (t @ [?r])) =
      Inr (Some (toMemo ?r))"
    using assms(2) by (simp add: getMemoById_run pg_getMemoById_new row_of_def)
  show ?thesis
    using tags sent created stored rt rid again by simp
qed

theorem create_without_tags_witness:
  "fd_tags milk_form = None \<and> ''7'' \<notin> set (map row_id [urgent_memo]) \<and>
   map q_verb (queries (snd (run (createMemo (pg_single ''7'' 5) milk_form) [urgent_memo]))) =
     [Insert \<lparr>p_title = ''Buy milk'', p_content = ''at the store'', p_category = None,
              p_tags = []\<rparr>] \<and>
   (\<exists>m. fst (run (createMemo (pg_single ''7'' 5) milk_form) [urgent_memo]) = Inr (Some m) \<and>
      memo_tags m = [] \<and>
      (\<exists>m'. fst (run (getMemoById (pg_single ''8'' 6) (memo_id m))
                  (store (snd (run (createMemo (pg_single ''7'' 5) milk_form) [urgent_memo])))) =
               Inr (Some m') \<and>
             memo_tags m' = []))"
proof -
  have a: "fd_tags milk_form = None" by code_simp
  have b: "''7'' \<notin> set (map row_id [urgent_memo])" by code_simp
  have c: "map q_verb (queries (snd (run (createMemo (pg_single ''7'' 5) milk_form) [urgent_memo]))) =
     [Insert \<lparr>p_title = ''Buy milk'', p_content = ''at the store'', p_category = None,
              p_tags = []\<rparr>]"
    by code_simp
  show ?thesis
    using a b c create_without_tags [OF a b, of "pg_single ''7'' 5" "[urgent_memo]" 5 "''8''" 6]
    by simp
qed

section \<open>Failures\<close>

lemma failed_delivers_no_rows: "\<not> succeeded resp \<Longrightarrow> rows_of resp = []"
  by (cases resp rule: response_cases) (simp_all add: succeeded_def rows_of_def)

lemma failed_delivers_no_row: "\<not> succeeded resp \<Longrightarrow> row_of resp = None"
  by (cases resp rule: response_cases) (simp_all add: succeeded_def row_of_def)

text \<open>
  Claim C3: every operation of the Memo Store catches every storage failure and returns
  its empty sentinel, the empty list for the operations that return lists, null for those
  that return a memo and false for delete, and never throws to its caller. A storage
  fails when the awaited query is rejected or resolves with an error. Both versions of
  the module are covered. The result \<open>Inr\<close> is a returned value; a thrown exception
  would be \<open>Inl\<close>.
\<close>

theorem storage_failure_gives_sentinel:
  assumes "\<forall>b s. \<not> succeeded (fst (rows b s))" and "\<forall>b s. \<not> succeeded (fst (single b s))"
  shows "fst (run (getMemos rows) s) = Inr [] \<and>
         fst (run (getMemoById single ident) s) = Inr None \<and>
         fst (run (createMemo single formData) s) = Inr None \<and>
         fst (run (updateMemo single ident formData) s) = Inr None \<and>
         fst (run (deleteMemo rows ident) s) = Inr False \<and>
         fst (run (searchMemos rows q) s) = Inr [] \<and>
         fst (run (getMemosByCategory rows c) s) = Inr [] \<and>
         fst (run (getMemos_p0 rows) s) = Inr [] \<and>
         fst (run (getMemoById_p0 single ident) s) = Inr None \<and>
         fst (run (createMemo_p0 single formData) s) = Inr None \<and>
         fst (run (updateMemo_p0 single ident formData) s) = Inr None \<and>
         fst (run (deleteMemo_p0 rows ident) s) = Inr False \<and>
         fst (run (searchMemos_p0 rows q) s) = Inr [] \<and>
         fst (run (getMemosByCategory_p0 rows c) s) = Inr []"
proof -
  have r: "rows_of (fst (rows b s)) = []" "\<not> succeeded (fst (rows b s))" for b
    using assms(1) by (simp_all add: failed_delivers_no_rows)
  have o: "row_of (fst (single b s)) = None" for b
    using assms(2) by (simp add: failed_delivers_no_row)
  have v1: "fst (run (getMemos rows) s) = Inr []"
    "fst (run (getMemoById single ident) s) = Inr None"
    "fst (run (createMemo single formData) s) = Inr None"
    "fst (run (updateMemo single ident formData) s) = Inr None"
    "fst (run (deleteMemo rows ident) s) = Inr False"
    "fst (run (searchMemos rows q) s) = Inr []"
    "fst (run (getMemosByCategory rows c) s) = Inr []"
    by (simp_all add: r o getMemos_run getMemoById_run createMemo_run updateMemo_run
        deleteMemo_run searchMemos_run getMemosByCategory_run)
  have v2: "fst (run (getMemos_p0 rows) s) = Inr []"
    "fst (run (getMemoById_p0 single ident) s) = Inr None"
    "fst (run (createMemo_p0 single formData) s) = Inr None"
    "fst (run (updateMemo_p0 single ident formData) s) = Inr None"
    "fst (run (deleteMemo_p0 rows ident) s) = Inr False"
    "fst (run (searchMemos_p0 rows q) s) = Inr []"
    "fst (run (getMemosByCategory_p0 rows c) s) = Inr []"
    by (simp_all add: r o getMemos_p0_run getMemoById_p0_run createMemo_p0_run
        updateMemo_p0_run deleteMemo_p0_run searchMemos_p0_run getMemosByCategory_p0_run)
  from v1 v2 show ?thesis by simp
qed

theorem storage_failure_gives_sentinel_witness:
  "(\<forall>b s. \<not> succeeded (fst ((offline :: (unit, MemoRow list) exec) b s))) \<and>
   (\<forall>b s. \<not> succeeded (fst ((refusing :: (unit, MemoRow) exec) b s))) \<and>
   fst (run (getMemos offline) ()) = Inr [] \<and>
   fst (run (getMemoById refusing ''1'') ()) = Inr None \<and>
   fst (run (createMemo refusing milk_form) ()) = Inr None \<and>
   fst (run (updateMemo refusing ''1'' milk_form) ()) = Inr None \<and>
   fst (run (deleteMemo offline ''1'') ()) = Inr False \<and>
   fst (run (searchMemos offline ''milk'') ()) = Inr [] \<and>
   fst (run (getMemosByCategory offline ''todo'') ()) = Inr []"
proof -
  have a: "\<forall>b s. \<not> succeeded (fst ((offline :: (unit, MemoRow list) exec) b s))"
    by (simp add: offline_def succeeded_def)
  have b: "\<forall>b s. \<not> succeeded (fst ((refusing :: (unit, MemoRow) exec) b s))"
    by (simp add: refusing_def succeeded_def)
  show ?thesis
    using a b storage_failure_gives_sentinel [OF a b, of "()" "''1''" milk_form "''milk''" "''todo''"]
    by simp
qed

section \<open>Tags at the boundary\<close>

lemma memo_tags_toMemo:
  "memo_tags \<circ> toMemo = tags_or_empty" "memo_tags \<circ> toMemo_p0 = tags_or_empty"
  by (auto simp: toMemo_def toMemo_p0_def nullish_def logical_or_def tags_or_empty_def)

text \<open>
  Claim C4: every memo an operation returns has a sequence for its tags, never null: a row
  whose tags are null becomes a memo with the empty sequence, on every read path and
  every write path. A \<open>Memo\<close> of the model has a list for its tags by its type; the
  theorem says which list. For each operation that returns memos, in both versions of the
  module, the tags of the memos returned are those of the rows the storage delivered,
  each as a sequence, the empty one for null.
\<close>

theorem returned_tags_are_sequences:
  "(\<exists>ms. fst (run (getMemos rows) s) = Inr ms \<and>
      map memo_tags ms = map tags_or_empty (rows_of (fst (rows (getMemos_query all_columns) s)))) \<and>
   (\<exists>mo. fst (run (getMemoById single ident) s) = Inr mo \<and>
      map_option memo_tags mo =
        map_option tags_or_empty (row_of (fst (single (getMemoById_query all_columns ident) s)))) \<and>
   (\<exists>mo. fst (run (createMemo single formData) s) = Inr mo \<and>
      map_option memo_tags mo =
        map_option tags_or_empty (row_of (fst (single (createMemo_query all_columns formData) s)))) \<and>
   (\<exists>mo. fst (run (updateMemo single ident formData) s) = Inr mo \<and>
      map_option memo_tags mo =
        map_option tags_or_empty
          (row_of (fst (single (updateMemo_query all_columns ident formData) s)))) \<and>
   (\<exists>ms. fst (run (searchMemos rows q) s) = Inr ms \<and>
      map memo_tags ms =
        map tags_or_empty
          (filter (matches q) (rows_of (fst (rows (searchMemos_query all_columns q) s))))) \<and>
   (\<exists>ms. fst (run (getMemosByCategory rows c) s) = Inr ms \<and>
      map memo_tags ms =
        map tags_or_empty (rows_of (fst (rows (getMemosByCategory_query all_columns c) s)))) \<and>
   (\<exists>ms. fst (run (getMemos_p0 rows) s) = Inr ms \<and>
      map memo_tags ms = map tags_or_empty (rows_of (fst (rows (getMemos_query ''*'') s)))) \<and>
   (\<exists>mo. fst (run (getMemoById_p0 single ident) s) = Inr mo \<and>
      map_option memo_tags mo =
        map_option tags_or_empty (row_of (fst (single (getMemoById_query ''*'' ident) s)))) \<and>
   (\<exists>mo. fst (run (createMemo_p0 single formData) s) = Inr mo \<and>
      map_option memo_tags mo =
        map_option tags_or_empty (row_of (fst (single (createMemo_query ''*'' formData) s)))) \<and>
   (\<exists>mo. fst (run (updateMemo_p0 single ident formData) s) = Inr mo \<and>
      map_option memo_tags mo =
        map_option tags_or_empty (row_of (fst (single (updateMemo_query ''*'' ident formData) s)))) \<and>
   (\<exists>ms. fst (run (searchMemos_p0 rows q) s) = Inr ms \<and>
      map memo_tags ms =
        map tags_or_empty (filter (matches q) (rows_of (fst (rows (searchMemos_query ''*'' q) s))))) \<and>
   (\<exists>ms. fst (run (getMemosByCategory_p0 rows c) s) = Inr ms \<and>
      map memo_tags ms =
        map tags_or_empty (rows_of (fst (rows (getMemosByCategory_query ''*'' c) s)))) \<and>
   tags_or_empty (r\<lparr>row_tags := None\<rparr>) = [] \<and>
   tags_or_empty (r\<lparr>row_tags := Some tags\<rparr>) = tags"
proof -
  have "tags_or_empty (r\<lparr>row_tags := None\<rparr>) = []"
    "tags_or_empty (r\<lparr>row_tags := Some tags\<rparr>) = tags"
    by (simp_all add: tags_or_empty_def)
  then show ?thesis
    by (simp add: getMemos_run getMemoById_run createMemo_run updateMemo_run searchMemos_run
        getMemosByCategory_run getMemos_p0_run getMemoById_p0_run createMemo_p0_run
        updateMemo_p0_run searchMemos_p0_run getMemosByCategory_p0_run memo_tags_toMemo
        option.map_comp)
qed

theorem returned_tags_are_sequences_witness:
  "fst (run (getMemos (answers (Resolved (Some [untagged_memo, urgent_memo]) None))) ()) =
     Inr [toMemo untagged_memo, toMemo urgent_memo] \<and>
   map memo_tags [toMemo untagged_memo, toMemo urgent_memo] = [[], [''urgent'']] \<and>
   (\<exists>mo. fst (run (createMemo (answers (Resolved (Some untagged_memo) None)) milk_form) ()) = Inr mo \<and>
      map_option memo_tags mo = Some [])"
proof -
  have a: "fst (run (getMemos (answers (Resolved (Some [untagged_memo, urgent_memo]) None))) ()) =
     Inr [toMemo untagged_memo, toMemo urgent_memo]"
    by code_simp
  have b: "rows_of (fst (answers (Resolved (Some [untagged_memo, urgent_memo]) None) (getMemos_query all_columns) ())) =
     [untagged_memo, urgent_memo]"
    by code_simp
  have c: "row_of (fst (answers (Resolved (Some untagged_memo) None) (createMemo_query all_columns milk_form) ())) =
     Some untagged_memo"
    by code_simp
  have d: "map tags_or_empty [untagged_memo, urgent_memo] = [[], [''urgent'']]"
    "tags_or_empty untagged_memo = []"
    by code_simp+
  show ?thesis
    using a b c d
      returned_tags_are_sequences [of "answers (Resolved (Some [untagged_memo, urgent_memo]) None)" "()"
        "answers (Resolved (Some untagged_memo) None)" "''3''" milk_form "''x''" "''all''" untagged_memo "[]"]
    by simp
qed

section \<open>The two versions of the module\<close>

lemma toMemo_p0_eq: "toMemo_p0 = toMemo"
  by (rule ext) (simp add: toMemo_p0_def toMemo_def nullish_def logical_or_def)

lemma same_query_columns:
  "same_query (memos_query v (Some all_columns) fs ord sg) (memos_query v (Some ''*'') fs ord sg)"
  by (simp add: same_query_def memos_query_def expand_columns_def)

lemma same_query_refl: "same_query b b"
  by (simp add: same_query_def)

text \<open>
  Claim C9: the two versions of the module behave alike: for each of the seven
  operations, given the same storage responses, both send the same storage queries,
  return equal results and invalidate the same cache paths. The queries are not the
  same: the first version selects the seven columns by name, the second selects \<^verbatim>\<open>*\<close>.
\<close>

theorem versions_select_differently:
  "queries (snd (run (getMemos (answers (Resolved None None))) ())) \<noteq>
   queries (snd (run (getMemos_p0 (answers (Resolved None None))) ()))"
  by (simp add: getMemos_run getMemos_p0_run getMemos_query_def memos_query_def all_columns_def)


text \<open>
  Claim C9, amended: for each of the seven operations, given the same storage response,
  both versions return equal results, invalidate the same cache paths and send the same
  query up to the spelling of the column list, \<^verbatim>\<open>getMemosByCategory\<close> included, where
  one version assigns what \<^verbatim>\<open>.eq\<close> returns and the other lets \<^verbatim>\<open>.eq\<close> change the builder
  in place.
\<close>

theorem versions_agree:
  "agree (run (getMemos (answers rr)) s) (run (getMemos_p0 (answers rr)) s) \<and>
   agree (run (getMemoById (answers ro) ident) s) (run (getMemoById_p0 (answers ro) ident) s) \<and>
   agree (run (createMemo (answers ro) formData) s) (run (createMemo_p0 (answers ro) formData) s) \<and>
   agree (run (updateMemo (answers ro) ident formData) s)
     (run (updateMemo_p0 (answers ro) ident formData) s) \<and>
   agree (run (deleteMemo (answers rr) ident) s) (run (deleteMemo_p0 (answers rr) ident) s) \<and>
   agree (run (searchMemos (answers rr) q) s) (run (searchMemos_p0 (answers rr) q) s) \<and>
   agree (run (getMemosByCategory (answers rr) c) s) (run (getMemosByCategory_p0 (answers rr) c) s)"
proof -
  have 1: "agree (run (getMemos (answers rr)) s) (run (getMemos_p0 (answers rr)) s)"
    by (simp add: agree_def getMemos_run getMemos_p0_run toMemo_p0_eq answers_def
        getMemos_query_def same_query_columns)
  have 2: "agree (run (getMemoById (answers ro) ident) s) (run (getMemoById_p0 (answers ro) ident) s)"
    by (simp add: agree_def getMemoById_run getMemoById_p0_run toMemo_p0_eq answers_def
        getMemoById_query_def same_query_columns)
  have 3: "agree (run (createMemo (answers ro) formData) s)
      (run (createMemo_p0 (answers ro) formData) s)"
    by (simp add: agree_def createMemo_run createMemo_p0_run toMemo_p0_eq answers_def
        createMemo_query_def same_query_columns)
  have 4: "agree (run (updateMemo (answers ro) ident formData) s)
      (run (updateMemo_p0 (answers ro) ident formData) s)"
    by (simp add: agree_def updateMemo_run updateMemo_p0_run toMemo_p0_eq answers_def
        updateMemo_query_def same_query_columns)
  have 5: "agree (run (deleteMemo (answers rr) ident) s) (run (deleteMemo_p0 (answers rr) ident) s)"
    by (simp add: agree_def deleteMemo_run deleteMemo_p0_run answers_def same_query_refl)
  have 6: "agree (run (searchMemos (answers rr) q) s) (run (searchMemos_p0 (answers rr) q) s)"
    by (simp add: agree_def searchMemos_run searchMemos_p0_run toMemo_p0_eq answers_def
        searchMemos_query_def same_query_columns)
  have 7: "agree (run (getMemosByCategory (answers rr) c) s)
      (run (getMemosByCategory_p0 (answers rr) c) s)"
    by (simp add: agree_def getMemosByCategory_run getMemosByCategory_p0_run toMemo_p0_eq
        answers_def getMemosByCategory_query_def same_query_columns)
  from 1 2 3 4 5 6 7 show ?thesis by simp
qed

theorem versions_agree_witness:
  "agree (run (getMemos (answers (Resolved (Some [untagged_memo, urgent_memo]) None))) ())
     (run (getMemos_p0 (answers (Resolved (Some [untagged_memo, urgent_memo]) None))) ()) \<and>
   fst (run (getMemos (answers (Resolved (Some [untagged_memo, urgent_memo]) None))) ()) =
     Inr [toMemo untagged_memo, toMemo urgent_memo] \<and>
   agree (run (createMemo (answers (Resolved None None)) milk_form) ())
     (run (createMemo_p0 (answers (Resolved None None)) milk_form) ()) \<and>
   fst (run (createMemo_p0 (answers (Resolved None None)) milk_form) ()) = Inr None \<and>
   agree (run (getMemosByCategory (answers (Resolved (Some [urgent_memo]) None)) ''todo'') ())
     (run (getMemosByCategory_p0 (answers (Resolved (Some [urgent_memo]) None)) ''todo'') ()) \<and>
   map q_filters
     (queries (snd (run (getMemosByCategory_p0 (answers (Resolved (Some [urgent_memo]) None))
        ''todo'') ()))) = [[Where (Eq Category ''todo'')]]"
proof -
  have a: "fst (run (getMemos (answers (Resolved (Some [untagged_memo, urgent_memo]) None))) ()) =
     Inr [toMemo untagged_memo, toMemo urgent_memo]"
    by code_simp
  have b: "fst (run (createMemo_p0 (answers (Resolved None None)) milk_form) ()) = Inr None"
    by code_simp
  have c: "map q_filters
     (queries (snd (run (getMemosByCategory_p0 (answers (Resolved (Some [urgent_memo]) None))
        ''todo'') ()))) = [[Where (Eq Category ''todo'')]]"
    by code_simp
  show ?thesis
    using a b c
      versions_agree [of "Resolved (Some [untagged_memo, urgent_memo]) None" "()"
        "Resolved None None" "''1''" milk_form "''x''" "''todo''"]
      versions_agree [of "Resolved (Some [urgent_memo]) None" "()"
        "Resolved None None" "''1''" milk_form "''x''" "''todo''"]
    by simp
qed

end
